theory Spec2Isabelle
  imports Complex_Main "HOL-Library.AList" "HOL-Library.Sublist"
begin

section \<open>JavaScript values\<close>

text \<open>
  The sources are TypeScript; at run time every value is a JavaScript value. A
  \<open>number\<close> is a finite value, \<open>NaN\<close> or one of the two infinities; comparisons
  with \<open>NaN\<close> are false. An object is its list of own properties in insertion order.
\<close>

datatype number = Num real | NaN | PosInfinity | NegInfinity

fun num_less :: "number \<Rightarrow> number \<Rightarrow> bool" where
  "num_less NaN _ = False"
| "num_less _ NaN = False"
| "num_less (Num x) (Num y) = (x < y)"
| "num_less (Num _) PosInfinity = True"
| "num_less (Num _) NegInfinity = False"
| "num_less PosInfinity _ = False"
| "num_less NegInfinity NegInfinity = False"
| "num_less NegInfinity _ = True"

datatype jsval =
    JUndefined
  | JNull
  | JBool bool
  | JNum number
  | JStr string
  | JArr "jsval list"
  | JObj "(string \<times> jsval) list"

type_synonym obj = "(string \<times> jsval) list"

text \<open>Truthiness, as \<open>if (v)\<close>, \<open>!v\<close> and \<open>a && b\<close> test it.\<close>

fun truthy :: "jsval \<Rightarrow> bool" where
  "truthy JUndefined = False"
| "truthy JNull = False"
| "truthy (JBool b) = b"
| "truthy (JNum n) = (n \<noteq> Num 0 \<and> n \<noteq> NaN)"
| "truthy (JStr s) = (s \<noteq> [])"
| "truthy (JArr _) = True"
| "truthy (JObj _) = True"

text \<open>Reading a property (\<open>o.k\<close>, \<open>undefined\<close> when absent) and the \<open>in\<close> operator.\<close>

definition getProp :: "obj \<Rightarrow> string \<Rightarrow> jsval" where
  "getProp ob k = (case map_of ob k of None \<Rightarrow> JUndefined | Some v \<Rightarrow> v)"

definition hasProp :: "obj \<Rightarrow> string \<Rightarrow> bool" where
  "hasProp ob k = (map_of ob k \<noteq> None)"

text \<open>
  Object spread \<open>{...a, ...b}\<close>: the properties of \<open>a\<close>, each property of \<open>b\<close>
  written over them from left to right (an existing key keeps its place, a new key
  is appended).
\<close>

definition spread :: "obj \<Rightarrow> obj \<Rightarrow> obj" where
  "spread a b = fold (\<lambda>(k, v) acc. AList.update k v acc) b a"

section \<open>Errors\<close>

text \<open>
  The sources throw plain \<open>Error\<close> objects told apart by their message, and
  \<open>MapError\<close> objects carrying a message, a code and details. One constructor stands
  for each message of an \<open>Error\<close>; a message that quotes a value is cut to its
  fixed text. \<open>Rejected\<close> carries what a promise of the platform was rejected with.
\<close>

datatype error =
    LayerIdRequired
  | LayerTypeRequired
  | LayerSourceRequired
  | OpacityOutOfRange
  | LayerAlreadyExists "string option"
  | LayerNotFound string
  | TypeError
  | InvalidDataSourceType string
  | UnsupportedDataSourceType jsval
  | UrlRequired
  | GeoJSONRequired
  | LoadGeoJSONFailed string
  | LoadDataFailed string
  | Rejected jsval
  | MapError string string "error option"
  | LayerManagerNotInitialized
  | ProviderLayerNotFound string

section \<open>Layers (core/layer.ts)\<close>

text \<open>
  \<open>LayerConfig\<close> of core/types.ts. The tags are run-time strings. A field that can
  be \<open>undefined\<close> is an option, \<open>None\<close> being \<open>undefined\<close>; a field that is absent
  reads as \<open>undefined\<close>, and the sources only read the fields of a descriptor, so the
  two are one. The required fields \<open>id\<close> and \<open>type\<close> are options too, since a patch
  can write \<open>undefined\<close> over them.

  \<open>Partial<LayerConfig>\<close> makes every field optional. For a patch, absent and
  \<open>undefined\<close> differ: the spread at the end of \<open>updateLayer\<close> copies a property
  that is present with the value \<open>undefined\<close>. A property of a patch is therefore
  \<open>Absent\<close>, or \<open>Present\<close> with its value, which may be \<open>undefined\<close>.
\<close>

datatype 'a property = Absent | Present 'a

record layerConfig =
  cfg_id :: "string option"
  cfg_type :: "string option"
  cfg_source :: jsval
  cfg_style :: "obj option"
  cfg_visible :: "bool option"
  cfg_opacity :: "number option"
  cfg_minZoom :: "number option"
  cfg_maxZoom :: "number option"
  cfg_options :: "obj option"

record layerPatch =
  upd_id :: "string option property"
  upd_type :: "string option property"
  upd_source :: "jsval property"
  upd_style :: "obj option property"
  upd_visible :: "bool option property"
  upd_opacity :: "number option property"
  upd_minZoom :: "number option property"
  upd_maxZoom :: "number option property"
  upd_options :: "obj option property"

text \<open>Reading a property of a patch: \<open>undefined\<close> when it is absent.\<close>

definition readProp :: "'a option property \<Rightarrow> 'a option" where
  "readProp p = (case p of Absent \<Rightarrow> None | Present v \<Rightarrow> v)"

definition readValue :: "jsval property \<Rightarrow> jsval" where
  "readValue p = (case p of Absent \<Rightarrow> JUndefined | Present v \<Rightarrow> v)"

text \<open>
  Descriptors are objects, held by reference: the constructor of a layer keeps the
  caller's object, and the mutators of the layer write it in place. The descriptors
  live in a heap, a list addressed by position, and a layer holds the address of its
  descriptor. A layer object is its two readonly fields and the field \<open>config\<close>.
\<close>

type_synonym descriptors = "layerConfig list"

record layer =
  layer_id :: "string option"
  layer_type :: "string option"
  layer_config :: nat

text \<open>\<open>BaseLayer.validateConfig\<close>: the three checks in the order of the source.\<close>

definition validateConfig :: "layerConfig \<Rightarrow> error + unit" where
  "validateConfig c =
     (if cfg_id c = None \<or> cfg_id c = Some [] then Inl LayerIdRequired
      else if cfg_type c = None \<or> cfg_type c = Some [] then Inl LayerTypeRequired
      else if \<not> truthy (cfg_source c) then Inl LayerSourceRequired
      else Inr ())"

text \<open>The constructor of \<open>BaseLayer\<close> (and so of \<open>GenericLayer\<close>), called with the
  descriptor at \<open>r\<close>.\<close>

definition newLayer :: "descriptors \<Rightarrow> nat \<Rightarrow> error + layer" where
  "newLayer H r =
     (case validateConfig (H ! r) of
        Inl e \<Rightarrow> Inl e
      | Inr _ \<Rightarrow>
          Inr \<lparr>layer_id = cfg_id (H ! r), layer_type = cfg_type (H ! r), layer_config = r\<rparr>)"

definition setStyle :: "descriptors \<Rightarrow> layer \<Rightarrow> obj \<Rightarrow> descriptors" where
  "setStyle H l st =
     H[layer_config l := (H ! layer_config l)
         \<lparr>cfg_style :=
            Some (spread (case cfg_style (H ! layer_config l) of None \<Rightarrow> [] | Some s \<Rightarrow> s) st)\<rparr>]"

definition setVisible :: "descriptors \<Rightarrow> layer \<Rightarrow> bool \<Rightarrow> descriptors" where
  "setVisible H l v = H[layer_config l := (H ! layer_config l)\<lparr>cfg_visible := Some v\<rparr>]"

definition setOpacity :: "descriptors \<Rightarrow> layer \<Rightarrow> number \<Rightarrow> error + descriptors" where
  "setOpacity H l x =
     (if num_less x (Num 0) \<or> num_less (Num 1) x then Inl OpacityOutOfRange
      else Inr (H[layer_config l := (H ! layer_config l)\<lparr>cfg_opacity := Some x\<rparr>]))"

definition getSource :: "descriptors \<Rightarrow> layer \<Rightarrow> jsval" where
  "getSource H l = cfg_source (H ! layer_config l)"

definition setSource :: "descriptors \<Rightarrow> layer \<Rightarrow> jsval \<Rightarrow> descriptors" where
  "setSource H l s = H[layer_config l := (H ! layer_config l)\<lparr>cfg_source := s\<rparr>]"

text \<open>\<open>LayerFactory.createLayer\<close> always builds a \<open>GenericLayer\<close>.\<close>

definition createLayer :: "descriptors \<Rightarrow> nat \<Rightarrow> error + layer" where
  "createLayer H r = newLayer H r"

text \<open>
  The spread \<open>{...layer.config, ...updates}\<close> at the end of
  \<open>LayerManager.updateLayer\<close>, which builds a new descriptor: every property present
  in the patch replaces the field of the descriptor.
\<close>

definition over :: "'a \<Rightarrow> 'a property \<Rightarrow> 'a" where
  "over old new = (case new of Absent \<Rightarrow> old | Present v \<Rightarrow> v)"

definition spreadConfig :: "layerConfig \<Rightarrow> layerPatch \<Rightarrow> layerConfig" where
  "spreadConfig c u =
     \<lparr>cfg_id = over (cfg_id c) (upd_id u),
      cfg_type = over (cfg_type c) (upd_type u),
      cfg_source = over (cfg_source c) (upd_source u),
      cfg_style = over (cfg_style c) (upd_style u),
      cfg_visible = over (cfg_visible c) (upd_visible u),
      cfg_opacity = over (cfg_opacity c) (upd_opacity u),
      cfg_minZoom = over (cfg_minZoom c) (upd_minZoom u),
      cfg_maxZoom = over (cfg_maxZoom c) (upd_maxZoom u),
      cfg_options = over (cfg_options c) (upd_options u)\<rparr>"

subsection \<open>LayerManager\<close>

text \<open>
  The manager's \<open>Map<string, ILayer>\<close> holds references to layer objects. The layer
  objects live in a store, addressed by their position; a layer that leaves the map
  stays in the store, as it stays reachable for whoever got it from \<open>addLayer\<close>.
  The state is the heap of descriptors, the store of layer objects and the entries
  of the map in insertion order; a key is what \<open>config.id\<close> was. An operation
  returns what the method returns or throws, together with the state it leaves
  behind: a method that throws after it has written to a descriptor leaves what it
  wrote.
\<close>

record layerManager =
  lm_configs :: descriptors
  lm_store :: "layer list"
  lm_layers :: "(string option \<times> nat) list"

definition newLayerManager :: layerManager where
  "newLayerManager = \<lparr>lm_configs = [], lm_store = [], lm_layers = []\<rparr>"

text \<open>\<open>addLayer\<close>, called with the descriptor at \<open>r\<close>.\<close>

definition addLayer :: "layerManager \<Rightarrow> nat \<Rightarrow> (error + nat) \<times> layerManager" where
  "addLayer W r =
     (if map_of (lm_layers W) (cfg_id (lm_configs W ! r)) \<noteq> None
      then (Inl (LayerAlreadyExists (cfg_id (lm_configs W ! r))), W)
      else (case createLayer (lm_configs W) r of
              Inl e \<Rightarrow> (Inl e, W)
            | Inr l \<Rightarrow>
                (Inr (length (lm_store W)),
                 W\<lparr>lm_store := lm_store W @ [l],
                   lm_layers :=
                     AList.update (cfg_id (lm_configs W ! r)) (length (lm_store W))
                       (lm_layers W)\<rparr>)))"

text \<open>\<open>GenericLayer.destroy\<close> does nothing, so \<open>removeLayer\<close> and \<open>clear\<close> only drop
  entries.\<close>

definition removeLayer :: "layerManager \<Rightarrow> string \<Rightarrow> layerManager" where
  "removeLayer W layerId =
     (case map_of (lm_layers W) (Some layerId) of
        None \<Rightarrow> W
      | Some _ \<Rightarrow> W\<lparr>lm_layers := AList.delete (Some layerId) (lm_layers W)\<rparr>)"

definition getLayer :: "layerManager \<Rightarrow> string \<Rightarrow> nat option" where
  "getLayer W layerId = map_of (lm_layers W) (Some layerId)"

definition getAllLayers :: "layerManager \<Rightarrow> nat list" where
  "getAllLayers W = map snd (lm_layers W)"

definition hasLayer :: "layerManager \<Rightarrow> string \<Rightarrow> bool" where
  "hasLayer W layerId = (map_of (lm_layers W) (Some layerId) \<noteq> None)"

definition getLayerCount :: "layerManager \<Rightarrow> nat" where
  "getLayerCount W = length (lm_layers W)"

definition clear :: "layerManager \<Rightarrow> layerManager" where
  "clear W = W\<lparr>lm_layers := []\<rparr>"

definition updateLayer ::
  "layerManager \<Rightarrow> string \<Rightarrow> layerPatch \<Rightarrow> (error + unit) \<times> layerManager" where
  "updateLayer W layerId updates =
     (case map_of (lm_layers W) (Some layerId) of
        None \<Rightarrow> (Inl (LayerNotFound layerId), W)
      | Some a \<Rightarrow>
          (let l = lm_store W ! a;
               H1 = (case readProp (upd_style updates) of
                       Some st \<Rightarrow> setStyle (lm_configs W) l st
                     | None \<Rightarrow> lm_configs W);
               H2 = (case readProp (upd_visible updates) of
                       Some v \<Rightarrow> setVisible H1 l v
                     | None \<Rightarrow> H1)
           in (case (case readProp (upd_opacity updates) of
                       Some x \<Rightarrow> setOpacity H2 l x
                     | None \<Rightarrow> Inr H2) of
                 Inl e \<Rightarrow> (Inl e, W\<lparr>lm_configs := H2\<rparr>)
               | Inr H3 \<Rightarrow>
                   (let H4 = (if truthy (readValue (upd_source updates))
                              then setSource H3 l (readValue (upd_source updates))
                              else H3)
                    in (Inr (),
                        W\<lparr>lm_configs := H4 @ [spreadConfig (H4 ! layer_config l) updates],
                          lm_store := (lm_store W)[a := l\<lparr>layer_config := length H4\<rparr>]\<rparr>)))))"

text \<open>The layer object an id refers to, and the descriptor a layer object holds.\<close>

definition storedLayer :: "layerManager \<Rightarrow> string \<Rightarrow> layer option" where
  "storedLayer W layerId = map_option (\<lambda>a. lm_store W ! a) (getLayer W layerId)"

definition descriptorOf :: "layerManager \<Rightarrow> nat \<Rightarrow> layerConfig" where
  "descriptorOf W a = lm_configs W ! layer_config (lm_store W ! a)"

text \<open>
  The descriptors as the four mutator calls of \<open>updateLayer\<close> on the layer \<open>l\<close>
  leave them, with the error when \<open>setOpacity\<close> throws.
\<close>

definition inPlace :: "descriptors \<Rightarrow> layer \<Rightarrow> layerPatch \<Rightarrow> (error + unit) \<times> descriptors" where
  "inPlace H l updates =
     (let H1 = (case readProp (upd_style updates) of Some st \<Rightarrow> setStyle H l st | None \<Rightarrow> H);
          H2 = (case readProp (upd_visible updates) of Some v \<Rightarrow> setVisible H1 l v | None \<Rightarrow> H1)
      in (case (case readProp (upd_opacity updates) of
                  Some x \<Rightarrow> setOpacity H2 l x
                | None \<Rightarrow> Inr H2) of
            Inl e \<Rightarrow> (Inl e, H2)
          | Inr H3 \<Rightarrow>
              (Inr (),
               if truthy (readValue (upd_source updates))
               then setSource H3 l (readValue (upd_source updates))
               else H3)))"

text \<open>
  What a caller can do: create a descriptor object, and call the manager. \<open>AddLayer\<close>
  names the descriptor it passes by its address; an address of no object is not an
  input.
\<close>

datatype managerOp =
    NewConfig layerConfig
  | AddLayer nat
  | RemoveLayer string
  | UpdateLayer string layerPatch
  | Clear

fun applyOp :: "layerManager \<Rightarrow> managerOp \<Rightarrow> layerManager" where
  "applyOp W (NewConfig c) = W\<lparr>lm_configs := lm_configs W @ [c]\<rparr>"
| "applyOp W (AddLayer r) = (if r < length (lm_configs W) then snd (addLayer W r) else W)"
| "applyOp W (RemoveLayer i) = removeLayer W i"
| "applyOp W (UpdateLayer i u) = snd (updateLayer W i u)"
| "applyOp W Clear = clear W"

definition applyOps :: "layerManager \<Rightarrow> managerOp list \<Rightarrow> layerManager" where
  "applyOps W ops = foldl applyOp W ops"

text \<open>
  Whether an operation is an \<open>updateLayer\<close> that returns normally, on the layer
  object at \<open>a\<close>, with a patch in which the property picked by \<open>sel\<close> (\<open>upd_id\<close> or
  \<open>upd_type\<close>) is present; and whether no operation of a sequence is.
\<close>

fun overwrites ::
  "(layerPatch \<Rightarrow> string option property) \<Rightarrow> layerManager \<Rightarrow> managerOp \<Rightarrow> nat \<Rightarrow> bool" where
  "overwrites sel W (UpdateLayer i u) a =
     (getLayer W i = Some a \<and> fst (updateLayer W i u) = Inr () \<and> sel u \<noteq> Absent)"
| "overwrites sel W _ a = False"

fun neverOverwritten ::
  "(layerPatch \<Rightarrow> string option property) \<Rightarrow> layerManager \<Rightarrow> managerOp list \<Rightarrow> nat \<Rightarrow> bool" where
  "neverOverwritten sel W [] a = True"
| "neverOverwritten sel W (op # ops) a =
     (\<not> overwrites sel W op a \<and> neverOverwritten sel (applyOp W op) ops a)"

text \<open>
  A state is sound when every layer object holds the address of a descriptor and
  every entry refers to a layer object whose id is the entry's key.
\<close>

definition sound :: "layerManager \<Rightarrow> bool" where
  "sound W =
     ((\<forall>a < length (lm_store W). layer_config (lm_store W ! a) < length (lm_configs W)) \<and>
      (\<forall>k a. map_of (lm_layers W) k = Some a \<longrightarrow>
          a < length (lm_store W) \<and> layer_id (lm_store W ! a) = k))"

section \<open>Data sources (core/data-source.ts)\<close>

text \<open>
  A \<open>DataSource\<close> descriptor is a plain object; \<open>normalizeSource\<close> hands an object
  of the caller's back under that type, so a descriptor is any object. The
  \<open>in\<close> operator throws a \<open>TypeError\<close> on a primitive; an array has no \<open>type\<close>
  property.
\<close>

fun normalizeSource :: "jsval \<Rightarrow> error + obj" where
  "normalizeSource (JStr s) =
     (if prefix ''mock://'' s then Inr [(''type'', JStr ''mock''), (''data'', JStr s)]
      else Inr [(''type'', JStr ''url''), (''url'', JStr s)])"
| "normalizeSource (JObj ob) =
     (if hasProp ob ''type'' \<and> truthy (getProp ob ''type'') then Inr ob
      else Inr [(''type'', JStr ''geojson''), (''data'', JObj ob)])"
| "normalizeSource (JArr xs) = Inr [(''type'', JStr ''geojson''), (''data'', JArr xs)]"
| "normalizeSource _ = Inl TypeError"

text \<open>The tags \<open>createDataSource\<close> has a case for.\<close>

definition recognizedTag :: "jsval \<Rightarrow> bool" where
  "recognizedTag t =
     (t = JStr ''geojson'' \<or> t = JStr ''url'' \<or> t = JStr ''tiles'' \<or> t = JStr ''3d-tiles'' \<or>
      t = JStr ''mock'')"

text \<open>
  An instance: the class it was built by, and the fields of \<open>BaseDataSource\<close>
  (\<open>loaded = false\<close> and \<open>data = null\<close> at construction).
\<close>

datatype dsClass =
    GeoJSONDataSource
  | URLDataSource
  | TileDataSource
  | ThreeDTilesDataSource
  | MockDataSource

record dataSource =
  ds_class :: dsClass
  ds_type :: jsval
  ds_config :: obj
  ds_loaded :: bool
  ds_data :: jsval

definition newBaseDataSource :: "dsClass \<Rightarrow> obj \<Rightarrow> dataSource" where
  "newBaseDataSource k c =
     \<lparr>ds_class = k, ds_type = getProp c ''type'', ds_config = c, ds_loaded = False,
      ds_data = JNull\<rparr>"

definition newGeoJSONDataSource :: "obj \<Rightarrow> error + dataSource" where
  "newGeoJSONDataSource c =
     (if getProp c ''type'' \<noteq> JStr ''geojson'' then Inl (InvalidDataSourceType ''GeoJSONDataSource'')
      else Inr (newBaseDataSource GeoJSONDataSource c))"

definition newURLDataSource :: "obj \<Rightarrow> error + dataSource" where
  "newURLDataSource c =
     (if getProp c ''type'' \<noteq> JStr ''url'' then Inl (InvalidDataSourceType ''URLDataSource'')
      else Inr (newBaseDataSource URLDataSource c))"

definition newTileDataSource :: "obj \<Rightarrow> error + dataSource" where
  "newTileDataSource c =
     (if getProp c ''type'' \<noteq> JStr ''tiles'' then Inl (InvalidDataSourceType ''TileDataSource'')
      else Inr (newBaseDataSource TileDataSource c))"

definition newThreeDTilesDataSource :: "obj \<Rightarrow> error + dataSource" where
  "newThreeDTilesDataSource c =
     (if getProp c ''type'' \<noteq> JStr ''3d-tiles''
      then Inl (InvalidDataSourceType ''ThreeDTilesDataSource'')
      else Inr (newBaseDataSource ThreeDTilesDataSource c))"

definition newMockDataSource :: "obj \<Rightarrow> error + dataSource" where
  "newMockDataSource c =
     (if getProp c ''type'' \<noteq> JStr ''mock'' then Inl (InvalidDataSourceType ''MockDataSource'')
      else Inr (newBaseDataSource MockDataSource c))"

definition isLoaded :: "dataSource \<Rightarrow> bool" where
  "isLoaded ds = ds_loaded ds"

definition destroy :: "dataSource \<Rightarrow> dataSource" where
  "destroy ds = ds\<lparr>ds_data := JNull, ds_loaded := False\<rparr>"

text \<open>\<open>DataSourceFactory.createDataSource\<close>: the \<open>switch\<close> on \<open>config.type\<close>.\<close>

definition createDataSource :: "obj \<Rightarrow> error + dataSource" where
  "createDataSource c =
     (let t = getProp c ''type'' in
      if t = JStr ''geojson'' then newGeoJSONDataSource c
      else if t = JStr ''url'' then newURLDataSource c
      else if t = JStr ''tiles'' then newTileDataSource c
      else if t = JStr ''3d-tiles'' then newThreeDTilesDataSource c
      else if t = JStr ''mock'' then newMockDataSource c
      else Inl (UnsupportedDataSourceType t))"

subsection \<open>The asynchronous \<open>load\<close> of the two remote classes\<close>

text \<open>
  An \<open>async\<close> method runs without interruption from one \<open>await\<close> to the next. Each
  \<open>load\<close> is therefore its segments: the one the call itself runs (up to
  \<open>await fetch(...)\<close>, when it gets that far), the one that runs when the fetch
  settles (up to \<open>await response.json()\<close>), and the one that runs when the body is
  parsed. A segment reads and writes the instance as it is at that moment. What the
  network answers is an input.
\<close>

datatype fetchResult =
    FetchRejected jsval
  | FetchResponse bool string

datatype jsonResult =
    JsonRejected jsval
  | JsonParsed jsval

datatype loadStep =
    Return jsval
  | Throw error
  | AwaitFetch jsval
  | AwaitJson

record asyncLoad =
  onCall :: "dataSource \<Rightarrow> loadStep \<times> dataSource"
  onResponse :: "dataSource \<Rightarrow> fetchResult \<Rightarrow> loadStep \<times> dataSource"
  onJson :: "dataSource \<Rightarrow> jsonResult \<Rightarrow> loadStep \<times> dataSource"

definition URL_onCall :: "dataSource \<Rightarrow> loadStep \<times> dataSource" where
  "URL_onCall ds =
     (if ds_loaded ds \<and> truthy (ds_data ds) then (Return (ds_data ds), ds)
      else if \<not> truthy (getProp (ds_config ds) ''url'') then (Throw UrlRequired, ds)
      else (AwaitFetch (getProp (ds_config ds) ''url''), ds))"

definition URL_onResponse :: "dataSource \<Rightarrow> fetchResult \<Rightarrow> loadStep \<times> dataSource" where
  "URL_onResponse ds r =
     (case r of
        FetchRejected reason \<Rightarrow> (Throw (Rejected reason), ds)
      | FetchResponse ok statusText \<Rightarrow>
          (if \<not> ok then (Throw (LoadDataFailed statusText), ds) else (AwaitJson, ds)))"

definition URL_onJson :: "dataSource \<Rightarrow> jsonResult \<Rightarrow> loadStep \<times> dataSource" where
  "URL_onJson ds r =
     (case r of
        JsonRejected reason \<Rightarrow> (Throw (Rejected reason), ds)
      | JsonParsed v \<Rightarrow> (Return v, ds\<lparr>ds_data := v, ds_loaded := True\<rparr>))"

definition URLDataSource_load :: asyncLoad where
  "URLDataSource_load =
     \<lparr>onCall = URL_onCall, onResponse = URL_onResponse, onJson = URL_onJson\<rparr>"

definition GeoJSON_onCall :: "dataSource \<Rightarrow> loadStep \<times> dataSource" where
  "GeoJSON_onCall ds =
     (if ds_loaded ds \<and> truthy (ds_data ds) then (Return (ds_data ds), ds)
      else (case getProp (ds_config ds) ''data'' of
              JStr s \<Rightarrow> (AwaitFetch (JStr s), ds)
            | d \<Rightarrow>
                (if truthy d then (Return d, ds\<lparr>ds_data := d, ds_loaded := True\<rparr>)
                 else (Throw GeoJSONRequired, ds))))"

definition GeoJSON_onResponse :: "dataSource \<Rightarrow> fetchResult \<Rightarrow> loadStep \<times> dataSource" where
  "GeoJSON_onResponse ds r =
     (case r of
        FetchRejected reason \<Rightarrow> (Throw (Rejected reason), ds)
      | FetchResponse ok statusText \<Rightarrow>
          (if \<not> ok then (Throw (LoadGeoJSONFailed statusText), ds) else (AwaitJson, ds)))"

definition GeoJSON_onJson :: "dataSource \<Rightarrow> jsonResult \<Rightarrow> loadStep \<times> dataSource" where
  "GeoJSON_onJson ds r =
     (case r of
        JsonRejected reason \<Rightarrow> (Throw (Rejected reason), ds)
      | JsonParsed v \<Rightarrow> (Return v, ds\<lparr>ds_data := v, ds_loaded := True\<rparr>))"

definition GeoJSONDataSource_load :: asyncLoad where
  "GeoJSONDataSource_load =
     \<lparr>onCall = GeoJSON_onCall, onResponse = GeoJSON_onResponse, onJson = GeoJSON_onJson\<rparr>"

text \<open>
  One instance, the requests that went out to the network, and the \<open>load\<close> calls
  made so far, each suspended at an \<open>await\<close> or settled. The events are a call of
  \<open>load\<close>, the fetch of call \<open>i\<close> settling, and the body of call \<open>i\<close> being parsed;
  an event for a call that does not wait for it changes nothing.
\<close>

datatype callState =
    AtFetch
  | AtJson
  | Settled "error + jsval"

record loadWorld =
  lw_ds :: dataSource
  lw_net :: "jsval list"
  lw_calls :: "callState list"

datatype event =
    CallLoad
  | FetchSettles nat fetchResult
  | JsonSettles nat jsonResult

fun settle :: "loadStep \<Rightarrow> callState" where
  "settle (Return v) = Settled (Inr v)"
| "settle (Throw e) = Settled (Inl e)"
| "settle (AwaitFetch u) = AtFetch"
| "settle AwaitJson = AtJson"

fun requested :: "loadStep \<Rightarrow> jsval list" where
  "requested (AwaitFetch u) = [u]"
| "requested _ = []"

fun execLoad :: "asyncLoad \<Rightarrow> loadWorld \<Rightarrow> event \<Rightarrow> loadWorld" where
  "execLoad L w CallLoad =
     (let (s, d) = onCall L (lw_ds w)
      in \<lparr>lw_ds = d, lw_net = lw_net w @ requested s, lw_calls = lw_calls w @ [settle s]\<rparr>)"
| "execLoad L w (FetchSettles i r) =
     (if i < length (lw_calls w) \<and> lw_calls w ! i = AtFetch
      then (let (s, d) = onResponse L (lw_ds w) r
            in \<lparr>lw_ds = d, lw_net = lw_net w @ requested s,
                lw_calls = (lw_calls w)[i := settle s]\<rparr>)
      else w)"
| "execLoad L w (JsonSettles i r) =
     (if i < length (lw_calls w) \<and> lw_calls w ! i = AtJson
      then (let (s, d) = onJson L (lw_ds w) r
            in \<lparr>lw_ds = d, lw_net = lw_net w @ requested s,
                lw_calls = (lw_calls w)[i := settle s]\<rparr>)
      else w)"

definition runLoads :: "asyncLoad \<Rightarrow> loadWorld \<Rightarrow> event list \<Rightarrow> loadWorld" where
  "runLoads L w evs = foldl (execLoad L) w evs"

definition fresh :: "dataSource \<Rightarrow> loadWorld" where
  "fresh ds = \<lparr>lw_ds = ds, lw_net = [], lw_calls = []\<rparr>"

subsection \<open>DataSourceManager\<close>

text \<open>
  The manager's \<open>Map<string, IDataSource>\<close> holds references. The instances live in
  a store, addressed by their position; an instance that leaves the map stays in the
  store, as it stays reachable for whoever got it from \<open>registerSource\<close>.
\<close>

record dataSourceManager =
  dm_store :: "dataSource list"
  dm_sources :: "(string \<times> nat) list"

definition registerSource ::
  "dataSourceManager \<Rightarrow> string \<Rightarrow> obj \<Rightarrow> (error + nat) \<times> dataSourceManager" where
  "registerSource m i c =
     (case createDataSource c of
        Inl e \<Rightarrow> (Inl e, m)
      | Inr ds \<Rightarrow>
          (Inr (length (dm_store m)),
           \<lparr>dm_store = dm_store m @ [ds],
            dm_sources = AList.update i (length (dm_store m)) (dm_sources m)\<rparr>))"

definition getSourceRef :: "dataSourceManager \<Rightarrow> string \<Rightarrow> nat option" where
  "getSourceRef m i = map_of (dm_sources m) i"

definition removeSource :: "dataSourceManager \<Rightarrow> string \<Rightarrow> dataSourceManager" where
  "removeSource m i =
     (case map_of (dm_sources m) i of
        None \<Rightarrow> m
      | Some a \<Rightarrow>
          \<lparr>dm_store = (dm_store m)[a := destroy (dm_store m ! a)],
           dm_sources = AList.delete i (dm_sources m)\<rparr>)"

definition clearSources :: "dataSourceManager \<Rightarrow> dataSourceManager" where
  "clearSources m =
     \<lparr>dm_store = fold (\<lambda>(k, a) st. st[a := destroy (st ! a)]) (dm_sources m) (dm_store m),
      dm_sources = []\<rparr>"

section \<open>Providers (core/provider.ts, providers/google/GoogleMapsProvider.ts)\<close>

text \<open>
  \<open>IMapProvider\<close>, as the facade uses it: for a provider state of type \<open>'p\<close>, each
  method returns or throws and leaves a provider state. View states, bounds and
  camera options are opaque values. \<open>p_on\<close> registers the facade's forwarder for an
  event type.
\<close>

record 'p provider =
  p_initialize :: "'p \<Rightarrow> obj \<Rightarrow> (error + unit) \<times> 'p"
  p_getViewState :: "'p \<Rightarrow> (error + jsval) \<times> 'p"
  p_setViewState :: "'p \<Rightarrow> jsval \<Rightarrow> jsval \<Rightarrow> (error + unit) \<times> 'p"
  p_getBounds :: "'p \<Rightarrow> (error + jsval) \<times> 'p"
  p_fitBounds :: "'p \<Rightarrow> jsval \<Rightarrow> jsval \<Rightarrow> (error + unit) \<times> 'p"
  p_addLayer :: "'p \<Rightarrow> layerConfig \<Rightarrow> (error + unit) \<times> 'p"
  p_removeLayer :: "'p \<Rightarrow> string \<Rightarrow> (error + unit) \<times> 'p"
  p_updateLayer :: "'p \<Rightarrow> string \<Rightarrow> layerPatch \<Rightarrow> (error + unit) \<times> 'p"
  p_getLayer :: "'p \<Rightarrow> string \<Rightarrow> (error + layerConfig option) \<times> 'p"
  p_getLayers :: "'p \<Rightarrow> (error + layerConfig list) \<times> 'p"
  p_setLayerVisibility :: "'p \<Rightarrow> string \<Rightarrow> bool \<Rightarrow> (error + unit) \<times> 'p"
  p_setLayerOpacity :: "'p \<Rightarrow> string \<Rightarrow> number \<Rightarrow> (error + unit) \<times> 'p"
  p_on :: "'p \<Rightarrow> string \<Rightarrow> 'p"
  p_resize :: "'p \<Rightarrow> (error + unit) \<times> 'p"

text \<open>The object literals \<open>{}\<close>, \<open>{ visible }\<close> and \<open>{ opacity }\<close>.\<close>

definition emptyPatch :: layerPatch where
  "emptyPatch =
     \<lparr>upd_id = Absent, upd_type = Absent, upd_source = Absent, upd_style = Absent,
      upd_visible = Absent, upd_opacity = Absent, upd_minZoom = Absent,
      upd_maxZoom = Absent, upd_options = Absent\<rparr>"

text \<open>
  \<open>BaseMapProvider.setLayerVisibility\<close> and \<open>setLayerOpacity\<close>. \<open>updateLayer\<close> is
  abstract there: it is the first argument, and the second is the provider's
  \<open>layers\<close> map.
\<close>

definition BaseMapProvider_setLayerVisibility ::
  "('p \<Rightarrow> string \<Rightarrow> layerPatch \<Rightarrow> (error + unit) \<times> 'p) \<Rightarrow> ('p \<Rightarrow> string \<rightharpoonup> layerConfig) \<Rightarrow>
   'p \<Rightarrow> string \<Rightarrow> bool \<Rightarrow> (error + unit) \<times> 'p" where
  "BaseMapProvider_setLayerVisibility upd lyrs p layerId visible =
     (case lyrs p layerId of
        Some _ \<Rightarrow> upd p layerId (emptyPatch\<lparr>upd_visible := Present (Some visible)\<rparr>)
      | None \<Rightarrow> (Inr (), p))"

definition BaseMapProvider_setLayerOpacity ::
  "('p \<Rightarrow> string \<Rightarrow> layerPatch \<Rightarrow> (error + unit) \<times> 'p) \<Rightarrow> ('p \<Rightarrow> string \<rightharpoonup> layerConfig) \<Rightarrow>
   'p \<Rightarrow> string \<Rightarrow> number \<Rightarrow> (error + unit) \<times> 'p" where
  "BaseMapProvider_setLayerOpacity upd lyrs p layerId opacity =
     (case lyrs p layerId of
        Some _ \<Rightarrow> upd p layerId (emptyPatch\<lparr>upd_opacity := Present (Some opacity)\<rparr>)
      | None \<Rightarrow> (Inr (), p))"

text \<open>
  \<open>GoogleMapsProvider\<close>: the inherited \<open>layers\<close> map and the rendering-side
  \<open>GoogleMapsLayerManager\<close>, of an opaque type \<open>'lm\<close>. The manager's \<open>updateLayer\<close>
  is \<open>async\<close>: the call returns a promise and never throws; what it does to the
  rendering side is the argument \<open>render\<close>.
\<close>

record 'lm googleMapsProvider =
  gp_layerManager :: "'lm option"
  gp_layers :: "string \<rightharpoonup> layerConfig"

definition GoogleMapsProvider_updateLayer ::
  "('lm \<Rightarrow> string \<Rightarrow> layerConfig \<Rightarrow> 'lm) \<Rightarrow> 'lm googleMapsProvider \<Rightarrow> string \<Rightarrow> layerPatch \<Rightarrow>
   (error + unit) \<times> 'lm googleMapsProvider" where
  "GoogleMapsProvider_updateLayer render p layerId updates =
     (case gp_layerManager p of
        None \<Rightarrow> (Inl LayerManagerNotInitialized, p)
      | Some lm \<Rightarrow>
          (case gp_layers p layerId of
             None \<Rightarrow> (Inl (ProviderLayerNotFound layerId), p)
           | Some l \<Rightarrow>
               (let updatedLayer = spreadConfig l updates
                in (Inr (),
                    \<lparr>gp_layerManager = Some (render lm layerId updatedLayer),
                     gp_layers = (gp_layers p)(layerId \<mapsto> updatedLayer)\<rparr>))))"

definition GoogleMapsProvider_setLayerVisibility ::
  "('lm \<Rightarrow> string \<Rightarrow> layerConfig \<Rightarrow> 'lm) \<Rightarrow> 'lm googleMapsProvider \<Rightarrow> string \<Rightarrow> bool \<Rightarrow>
   (error + unit) \<times> 'lm googleMapsProvider" where
  "GoogleMapsProvider_setLayerVisibility render =
     BaseMapProvider_setLayerVisibility (GoogleMapsProvider_updateLayer render) gp_layers"

definition GoogleMapsProvider_setLayerOpacity ::
  "('lm \<Rightarrow> string \<Rightarrow> layerConfig \<Rightarrow> 'lm) \<Rightarrow> 'lm googleMapsProvider \<Rightarrow> string \<Rightarrow> number \<Rightarrow>
   (error + unit) \<times> 'lm googleMapsProvider" where
  "GoogleMapsProvider_setLayerOpacity render =
     BaseMapProvider_setLayerOpacity (GoogleMapsProvider_updateLayer render) gp_layers"

section \<open>The facade (core/UniversalMap.ts)\<close>

text \<open>
  The fields of \<open>UniversalMap\<close> the methods below read or write. The callbacks that
  \<open>emit\<close> runs belong to the caller and are outside the model. A method returns or
  throws and leaves a facade state; \<open>initialize\<close> also returns what it wrote to the
  console.
\<close>

record 'p universalMap =
  um_provider :: "'p option"
  um_config :: obj
  um_initialized :: bool

definition notInitialized :: error where
  "notInitialized =
     MapError ''Map not initialized. Call initialize() first.'' ''NOT_INITIALIZED'' None"

text \<open>
  The constructor stores the configuration and validates it; \<open>validateConfig\<close>
  throws, or fills in a missing initial position in the stored object and warns.
\<close>

definition UniversalMap_validateConfig :: "obj \<Rightarrow> (error + obj) \<times> string list" where
  "UniversalMap_validateConfig c =
     (if \<not> truthy (getProp c ''provider'')
      then (Inl (MapError ''Provider is required'' ''CONFIG_ERROR'' None), [])
      else if \<not> truthy (getProp c ''container'')
      then (Inl (MapError ''Container is required'' ''CONFIG_ERROR'' None), [])
      else if \<not> truthy (getProp c ''viewState'') \<and>
              (getProp c ''zoom'' = JUndefined \<or> \<not> truthy (getProp c ''center''))
      then (Inr (AList.update ''zoom'' (JNum (Num 2))
                  (AList.update ''center'' (JArr [JNum (Num 0), JNum (Num 0)]) c)),
            [''No initial position specified, using default (0, 0, zoom: 2)''])
      else (Inr c, []))"

definition newUniversalMap :: "obj \<Rightarrow> (error + 'p universalMap) \<times> string list" where
  "newUniversalMap c =
     (case UniversalMap_validateConfig c of
        (Inl e, w) \<Rightarrow> (Inl e, w)
      | (Inr c', w) \<Rightarrow>
          (Inr \<lparr>um_provider = None, um_config = c', um_initialized = False\<rparr>, w))"

text \<open>\<open>createProvider\<close> throws for every provider name.\<close>

definition createProvider :: "jsval \<Rightarrow> error + 'p" where
  "createProvider providerName =
     Inl (MapError ''Provider not yet implemented'' ''PROVIDER_NOT_FOUND'' None)"

definition forwardedEvents :: "string list" where
  "forwardedEvents =
     [''click'', ''dblclick'', ''mousemove'', ''mouseenter'', ''mouseleave'', ''contextmenu'',
      ''zoom'', ''move'', ''movestart'', ''moveend'', ''zoomstart'', ''zoomend'', ''rotate'',
      ''pitch'', ''error'']"

definition setupEventForwarding :: "'p provider \<Rightarrow> 'p \<Rightarrow> 'p" where
  "setupEventForwarding P p = fold (\<lambda>eventType q. p_on P q eventType) forwardedEvents p"

definition initialize ::
  "'p provider \<Rightarrow> 'p universalMap \<Rightarrow> (error + unit) \<times> 'p universalMap \<times> string list" where
  "initialize P m =
     (if um_initialized m then (Inr (), m, [''Map is already initialized''])
      else (case createProvider (getProp (um_config m) ''provider'') of
              Inl e \<Rightarrow>
                (Inl (MapError ''Failed to initialize map'' ''INIT_ERROR'' (Some e)), m, [])
            | Inr p \<Rightarrow>
                (case p_initialize P p (um_config m) of
                   (Inl e, p') \<Rightarrow>
                     (Inl (MapError ''Failed to initialize map'' ''INIT_ERROR'' (Some e)),
                      m\<lparr>um_provider := Some p'\<rparr>, [])
                 | (Inr _, p') \<Rightarrow>
                     (Inr (),
                      m\<lparr>um_provider := Some (setupEventForwarding P p'), um_initialized := True\<rparr>,
                      []))))"

text \<open>
  \<open>ensureInitialized\<close> throws unless \<open>initialized\<close> is set and a provider is there;
  when it returns, \<open>this.provider!\<close> is that provider.
\<close>

definition ensureInitialized :: "'p universalMap \<Rightarrow> error + 'p" where
  "ensureInitialized m =
     (case um_provider m of
        None \<Rightarrow> Inl notInitialized
      | Some p \<Rightarrow> (if um_initialized m then Inr p else Inl notInitialized))"

text \<open>The shape of the guarded methods: \<open>this.ensureInitialized(); return this.provider!.f(...)\<close>.\<close>

definition guarded ::
  "'p universalMap \<Rightarrow> ('p \<Rightarrow> (error + 'r) \<times> 'p) \<Rightarrow> (error + 'r) \<times> 'p universalMap" where
  "guarded m f =
     (case ensureInitialized m of
        Inl e \<Rightarrow> (Inl e, m)
      | Inr p \<Rightarrow> (let (r, p') = f p in (r, m\<lparr>um_provider := Some p'\<rparr>)))"

definition UniversalMap_getViewState ::
  "'p provider \<Rightarrow> 'p universalMap \<Rightarrow> (error + jsval) \<times> 'p universalMap" where
  "UniversalMap_getViewState P m = guarded m (p_getViewState P)"

definition UniversalMap_setViewState ::
  "'p provider \<Rightarrow> 'p universalMap \<Rightarrow> jsval \<Rightarrow> jsval \<Rightarrow> (error + unit) \<times> 'p universalMap" where
  "UniversalMap_setViewState P m viewState options =
     guarded m (\<lambda>p. p_setViewState P p viewState options)"

definition UniversalMap_getBounds ::
  "'p provider \<Rightarrow> 'p universalMap \<Rightarrow> (error + jsval) \<times> 'p universalMap" where
  "UniversalMap_getBounds P m = guarded m (p_getBounds P)"

definition UniversalMap_fitBounds ::
  "'p provider \<Rightarrow> 'p universalMap \<Rightarrow> jsval \<Rightarrow> jsval \<Rightarrow> (error + unit) \<times> 'p universalMap" where
  "UniversalMap_fitBounds P m bounds options = guarded m (\<lambda>p. p_fitBounds P p bounds options)"

definition UniversalMap_addLayer ::
  "'p provider \<Rightarrow> 'p universalMap \<Rightarrow> layerConfig \<Rightarrow> (error + unit) \<times> 'p universalMap" where
  "UniversalMap_addLayer P m l = guarded m (\<lambda>p. p_addLayer P p l)"

definition UniversalMap_removeLayer ::
  "'p provider \<Rightarrow> 'p universalMap \<Rightarrow> string \<Rightarrow> (error + unit) \<times> 'p universalMap" where
  "UniversalMap_removeLayer P m layerId = guarded m (\<lambda>p. p_removeLayer P p layerId)"

definition UniversalMap_updateLayer ::
  "'p provider \<Rightarrow> 'p universalMap \<Rightarrow> string \<Rightarrow> layerPatch \<Rightarrow> (error + unit) \<times> 'p universalMap" where
  "UniversalMap_updateLayer P m layerId updates =
     guarded m (\<lambda>p. p_updateLayer P p layerId updates)"

definition UniversalMap_getLayer ::
  "'p provider \<Rightarrow> 'p universalMap \<Rightarrow> string \<Rightarrow>
   (error + layerConfig option) \<times> 'p universalMap" where
  "UniversalMap_getLayer P m layerId = guarded m (\<lambda>p. p_getLayer P p layerId)"

definition UniversalMap_getLayers ::
  "'p provider \<Rightarrow> 'p universalMap \<Rightarrow> (error + layerConfig list) \<times> 'p universalMap" where
  "UniversalMap_getLayers P m = guarded m (p_getLayers P)"

definition UniversalMap_setLayerVisibility ::
  "'p provider \<Rightarrow> 'p universalMap \<Rightarrow> string \<Rightarrow> bool \<Rightarrow> (error + unit) \<times> 'p universalMap" where
  "UniversalMap_setLayerVisibility P m layerId visible =
     guarded m (\<lambda>p. p_setLayerVisibility P p layerId visible)"

definition UniversalMap_setLayerOpacity ::
  "'p provider \<Rightarrow> 'p universalMap \<Rightarrow> string \<Rightarrow> number \<Rightarrow> (error + unit) \<times> 'p universalMap" where
  "UniversalMap_setLayerOpacity P m layerId opacity =
     guarded m (\<lambda>p. p_setLayerOpacity P p layerId opacity)"

text \<open>\<open>resize\<close> tests the provider only, and does not call \<open>ensureInitialized\<close>.\<close>

definition UniversalMap_resize ::
  "'p provider \<Rightarrow> 'p universalMap \<Rightarrow> (error + unit) \<times> 'p universalMap" where
  "UniversalMap_resize P m =
     (case um_provider m of
        None \<Rightarrow> (Inr (), m)
      | Some p \<Rightarrow> (let (r, p') = p_resize P p in (r, m\<lparr>um_provider := Some p'\<rparr>)))"

section \<open>Example values\<close>

text \<open>
  A descriptor with a fill colour, the layer \<open>addLayer\<close> builds from it when the
  descriptor is at address 0, the state holding that layer, and a second descriptor
  under the same id.
\<close>

definition exConfigA :: layerConfig where
  "exConfigA =
     \<lparr>cfg_id = Some ''a'', cfg_type = Some ''geojson'',
      cfg_source = JStr ''https://x/data.json'',
      cfg_style = Some [(''fillColor'', JStr ''#ff0000'')], cfg_visible = Some True,
      cfg_opacity = Some (Num 1), cfg_minZoom = None, cfg_maxZoom = None,
      cfg_options = None\<rparr>"

definition exLayerA :: layer where
  "exLayerA = \<lparr>layer_id = Some ''a'', layer_type = Some ''geojson'', layer_config = 0\<rparr>"

definition exLayers :: layerManager where
  "exLayers =
     \<lparr>lm_configs = [exConfigA], lm_store = [exLayerA], lm_layers = [(Some ''a'', 0)]\<rparr>"

definition exConfigA2 :: layerConfig where
  "exConfigA2 =
     \<lparr>cfg_id = Some ''a'', cfg_type = Some ''heatmap'', cfg_source = JStr ''mock://cities'',
      cfg_style = None, cfg_visible = None, cfg_opacity = None, cfg_minZoom = None,
      cfg_maxZoom = None, cfg_options = None\<rparr>"

text \<open>The patches \<open>{style: {opacity: 0.5}}\<close>, \<open>{visible: false, opacity: 1.5}\<close>,
  \<open>{opacity: 1.5}\<close>, \<open>{id: 'b'}\<close>, \<open>{id: undefined}\<close> and
  \<open>{id: 'b', opacity: 1.5}\<close>.\<close>

definition exPatchStyle :: layerPatch where
  "exPatchStyle =
     emptyPatch\<lparr>upd_style := Present (Some [(''opacity'', JNum (Num (1/2)))])\<rparr>"

definition exPatchVisibleOpacity :: layerPatch where
  "exPatchVisibleOpacity =
     emptyPatch\<lparr>upd_visible := Present (Some False),
                upd_opacity := Present (Some (Num (3/2)))\<rparr>"

definition exPatchOpacity :: layerPatch where
  "exPatchOpacity = emptyPatch\<lparr>upd_opacity := Present (Some (Num (3/2)))\<rparr>"

definition exPatchId :: layerPatch where
  "exPatchId = emptyPatch\<lparr>upd_id := Present (Some ''b'')\<rparr>"

definition exPatchIdUndefined :: layerPatch where
  "exPatchIdUndefined = emptyPatch\<lparr>upd_id := Present None\<rparr>"

definition exPatchIdOpacity :: layerPatch where
  "exPatchIdOpacity =
     emptyPatch\<lparr>upd_id := Present (Some ''b''), upd_opacity := Present (Some (Num (3/2)))\<rparr>"

text \<open>An inline GeoJSON value: \<open>{type: 'FeatureCollection', features: []}\<close>.\<close>

definition exFeatureCollection :: obj where
  "exFeatureCollection = [(''type'', JStr ''FeatureCollection''), (''features'', JArr [])]"

text \<open>A Google Maps provider, initialised, showing the layer of \<open>exConfigA\<close>.\<close>

definition exGoogle :: "unit googleMapsProvider" where
  "exGoogle = \<lparr>gp_layerManager = Some (), gp_layers = [''a'' \<mapsto> exConfigA]\<rparr>"

text \<open>
  Two remote descriptors and the instances \<open>createDataSource\<close> builds from them;
  the first instance again, once a load has stored a feature collection in it; and
  a manager that holds this loaded instance under the id \<open>x\<close>.
\<close>

definition exUrlConfig :: obj where
  "exUrlConfig = [(''type'', JStr ''url''), (''url'', JStr ''https://x/data.json'')]"

definition exUrlSource :: dataSource where
  "exUrlSource = newBaseDataSource URLDataSource exUrlConfig"

definition exGeoConfig :: obj where
  "exGeoConfig = [(''type'', JStr ''geojson''), (''data'', JStr ''https://x/a.geojson'')]"

definition exGeoSource :: dataSource where
  "exGeoSource = newBaseDataSource GeoJSONDataSource exGeoConfig"

definition exUrlLoaded :: dataSource where
  "exUrlLoaded = exUrlSource\<lparr>ds_data := JObj exFeatureCollection, ds_loaded := True\<rparr>"

definition exManager :: dataSourceManager where
  "exManager = \<lparr>dm_store = [exUrlLoaded], dm_sources = [(''x'', 0)]\<rparr>"

text \<open>A provider whose methods all succeed and do nothing, a facade as the constructor
  leaves it, and a facade in the initialised state.\<close>

definition exProvider :: "unit provider" where
  "exProvider =
     \<lparr>p_initialize = (\<lambda>p c. (Inr (), p)),
      p_getViewState = (\<lambda>p. (Inr JNull, p)),
      p_setViewState = (\<lambda>p v opts. (Inr (), p)),
      p_getBounds = (\<lambda>p. (Inr JNull, p)),
      p_fitBounds = (\<lambda>p b opts. (Inr (), p)),
      p_addLayer = (\<lambda>p l. (Inr (), p)),
      p_removeLayer = (\<lambda>p i. (Inr (), p)),
      p_updateLayer = (\<lambda>p i u. (Inr (), p)),
      p_getLayer = (\<lambda>p i. (Inr None, p)),
      p_getLayers = (\<lambda>p. (Inr [], p)),
      p_setLayerVisibility = (\<lambda>p i v. (Inr (), p)),
      p_setLayerOpacity = (\<lambda>p i x. (Inr (), p)),
      p_on = (\<lambda>p t. p),
      p_resize = (\<lambda>p. (Inr (), p))\<rparr>"

definition exMapConfig :: obj where
  "exMapConfig =
     [(''provider'', JStr ''google''), (''container'', JStr ''map''),
      (''center'', JArr [JNum (Num 52), JNum (Num 13)]), (''zoom'', JNum (Num 10))]"

definition exMap :: "unit universalMap" where
  "exMap = \<lparr>um_provider = None, um_config = exMapConfig, um_initialized = False\<rparr>"

definition exMapInitialized :: "unit universalMap" where
  "exMapInitialized = \<lparr>um_provider = Some (), um_config = exMapConfig, um_initialized = True\<rparr>"

text \<open>A Google Maps provider that has the layer and no layer manager yet, and a provider
  whose \<open>updateLayer\<close> and \<open>resize\<close> throw.\<close>

definition exGoogleUninitialized :: "unit googleMapsProvider" where
  "exGoogleUninitialized = \<lparr>gp_layerManager = None, gp_layers = [''a'' \<mapsto> exConfigA]\<rparr>"

definition exFailingProvider :: "unit provider" where
  "exFailingProvider =
     exProvider\<lparr>p_updateLayer := (\<lambda>p i u. (Inl TypeError, p)),
                p_resize := (\<lambda>p. (Inl TypeError, p))\<rparr>"

text \<open>The two remote instances once a load has stored a falsy payload in them: the JSON
  documents \<open>0\<close> and \<open>null\<close>.\<close>

definition exUrlLoadedZero :: dataSource where
  "exUrlLoadedZero = exUrlSource\<lparr>ds_data := JNum (Num 0), ds_loaded := True\<rparr>"

definition exGeoLoadedNull :: dataSource where
  "exGeoLoadedNull = exGeoSource\<lparr>ds_data := JNull, ds_loaded := True\<rparr>"

section \<open>Facts about the layer manager\<close>

lemma exLayers_built:
  "applyOps newLayerManager [NewConfig exConfigA, AddLayer 0] = exLayers"
  by (simp add: applyOps_def addLayer_def newLayerManager_def createLayer_def newLayer_def
      validateConfig_def exConfigA_def exLayerA_def exLayers_def)

lemma applyOps_snoc: "applyOps W (ops @ [op]) = applyOp (applyOps W ops) op"
  by (simp add: applyOps_def)

lemma applyOps_append: "applyOps W (ops @ ops') = applyOps (applyOps W ops) ops'"
  by (simp add: applyOps_def)

text \<open>
  The mutators of a layer write one field of one descriptor: the heap keeps its
  length, and every descriptor keeps its id and type.
\<close>

lemma update_keeps:
  "f (g (H ! k)) = f (H ! k) \<Longrightarrow> f (H[k := g (H ! k)] ! r) = f (H ! r)"
  by (cases "k = r"; cases "k < length H") (simp_all add: list_update_beyond)

lemma setStyle_keeps:
  "length (setStyle H l st) = length H \<and> cfg_id (setStyle H l st ! r) = cfg_id (H ! r) \<and>
   cfg_type (setStyle H l st ! r) = cfg_type (H ! r)"
  by (simp add: setStyle_def update_keeps)

lemma setVisible_keeps:
  "length (setVisible H l v) = length H \<and> cfg_id (setVisible H l v ! r) = cfg_id (H ! r) \<and>
   cfg_type (setVisible H l v ! r) = cfg_type (H ! r)"
  by (simp add: setVisible_def update_keeps)

lemma setSource_keeps:
  "length (setSource H l v) = length H \<and> cfg_id (setSource H l v ! r) = cfg_id (H ! r) \<and>
   cfg_type (setSource H l v ! r) = cfg_type (H ! r)"
  by (simp add: setSource_def update_keeps)

lemma setOpacity_keeps:
  "setOpacity H l x = Inr H' \<Longrightarrow>
   length H' = length H \<and> cfg_id (H' ! r) = cfg_id (H ! r) \<and> cfg_type (H' ! r) = cfg_type (H ! r)"
  by (auto simp: setOpacity_def update_keeps split: if_splits)

lemma inPlace_keeps:
  "length (snd (inPlace H l u)) = length H \<and>
   cfg_id (snd (inPlace H l u) ! r) = cfg_id (H ! r) \<and>
   cfg_type (snd (inPlace H l u) ! r) = cfg_type (H ! r)"
  by (auto simp: inPlace_def Let_def setStyle_keeps setVisible_keeps setSource_keeps
      dest!: setOpacity_keeps [where r = r] split: option.splits sum.splits)

text \<open>
  \<open>updateLayer\<close> on a registered id: the mutators run on the descriptor in place;
  when none throws, the layer gets a new descriptor, the spread of its descriptor and
  the patch.
\<close>

lemma updateLayer_inPlace:
  "map_of (lm_layers W) (Some i) = Some a \<Longrightarrow>
   updateLayer W i u =
     (case inPlace (lm_configs W) (lm_store W ! a) u of
        (Inl e, H) \<Rightarrow> (Inl e, W\<lparr>lm_configs := H\<rparr>)
      | (Inr _, H) \<Rightarrow>
          (Inr (),
           W\<lparr>lm_configs := H @ [spreadConfig (H ! layer_config (lm_store W ! a)) u],
             lm_store := (lm_store W)[a := (lm_store W ! a)\<lparr>layer_config := length H\<rparr>]\<rparr>))"
  by (simp add: updateLayer_def inPlace_def Let_def split: option.splits sum.splits)

lemma updateLayer_absent: "map_of (lm_layers W) (Some i) = None \<Longrightarrow> snd (updateLayer W i u) = W"
  by (simp add: updateLayer_def)

lemma updateLayer_layers: "lm_layers (snd (updateLayer W i u)) = lm_layers W"
  by (cases "map_of (lm_layers W) (Some i)")
     (simp_all add: updateLayer_absent updateLayer_inPlace split: prod.splits sum.splits)

lemma updateLayer_store_length:
  "length (lm_store (snd (updateLayer W i u))) = length (lm_store W)"
  by (cases "map_of (lm_layers W) (Some i)")
     (simp_all add: updateLayer_absent updateLayer_inPlace split: prod.splits sum.splits)

text \<open>
  Every state reached from a new manager is sound, and a layer object, once in the
  store, stays there with its id and type.
\<close>

lemma sound_new: "sound newLayerManager"
  by (simp add: sound_def newLayerManager_def)

lemma sound_addLayer:
  assumes "sound W" and "r < length (lm_configs W)"
  shows "sound (snd (addLayer W r))"
  using assms
  by (auto simp: sound_def addLayer_def createLayer_def newLayer_def update_conv' nth_append
      less_Suc_eq split: sum.splits if_splits)

lemma sound_removeLayer: "sound W \<Longrightarrow> sound (removeLayer W i)"
  by (auto simp: sound_def removeLayer_def delete_conv' split: option.splits if_splits)

lemma sound_updateLayer:
  assumes "sound W"
  shows "sound (snd (updateLayer W i u))"
proof (cases "map_of (lm_layers W) (Some i)")
  case None
  then show ?thesis using assms by (simp add: updateLayer_absent)
next
  case (Some a)
  obtain r H where r: "inPlace (lm_configs W) (lm_store W ! a) u = (r, H)"
    by (cases "inPlace (lm_configs W) (lm_store W ! a) u")
  have len: "length H = length (lm_configs W)"
    using inPlace_keeps [of "lm_configs W" "lm_store W ! a" u] r by simp
  show ?thesis
  proof (cases r)
    case (Inl e)
    then show ?thesis
      using assms Some r len by (simp add: updateLayer_inPlace sound_def)
  next
    case (Inr x)
    then show ?thesis
      using assms Some r len
      by (auto simp: updateLayer_inPlace sound_def nth_list_update less_Suc_eq)
  qed
qed

lemma sound_applyOp: "sound W \<Longrightarrow> sound (applyOp W op)"
proof (cases op)
  case (NewConfig c)
  assume "sound W"
  then show ?thesis using NewConfig by (auto simp: sound_def less_Suc_eq)
next
  case (AddLayer r)
  assume "sound W"
  then show ?thesis using AddLayer by (simp add: sound_addLayer)
next
  case (RemoveLayer i)
  assume "sound W"
  then show ?thesis using RemoveLayer by (simp add: sound_removeLayer)
next
  case (UpdateLayer i u)
  assume "sound W"
  then show ?thesis using UpdateLayer by (simp add: sound_updateLayer)
next
  case Clear
  assume "sound W"
  then show ?thesis using Clear by (simp add: sound_def clear_def)
qed

lemma sound_applyOps: "sound W \<Longrightarrow> sound (applyOps W ops)"
  by (induction ops rule: rev_induct) (simp_all add: applyOps_def sound_applyOp)

lemma object_kept:
  assumes "a < length (lm_store W)"
  shows "a < length (lm_store (applyOp W op)) \<and>
         layer_id (lm_store (applyOp W op) ! a) = layer_id (lm_store W ! a) \<and>
         layer_type (lm_store (applyOp W op) ! a) = layer_type (lm_store W ! a)"
proof (cases op)
  case (NewConfig c)
  then show ?thesis using assms by simp
next
  case (AddLayer r)
  then show ?thesis
    using assms by (simp add: addLayer_def nth_append split: sum.splits)
next
  case (RemoveLayer i)
  then show ?thesis using assms by (simp add: removeLayer_def split: option.splits)
next
  case (UpdateLayer i u)
  show ?thesis
  proof (cases "map_of (lm_layers W) (Some i)")
    case None
    then show ?thesis using assms UpdateLayer by (simp add: updateLayer_absent)
  next
    case (Some b)
    then show ?thesis
      using assms UpdateLayer
      by (cases "a = b")
         (simp_all add: updateLayer_inPlace split: prod.splits sum.splits)
  qed
next
  case Clear
  then show ?thesis using assms by (simp add: clear_def)
qed

lemma objects_kept:
  assumes "a < length (lm_store W)"
  shows "a < length (lm_store (applyOps W ops)) \<and>
         layer_id (lm_store (applyOps W ops) ! a) = layer_id (lm_store W ! a) \<and>
         layer_type (lm_store (applyOps W ops) ! a) = layer_type (lm_store W ! a)"
proof (induction ops rule: rev_induct)
  case Nil
  then show ?case using assms by (simp add: applyOps_def)
next
  case (snoc op ops)
  then show ?case
    using object_kept [of a "applyOps W ops" op] by (simp add: applyOps_snoc)
qed

lemma registered_key:
  "getLayer (applyOps newLayerManager ops) k = Some a \<Longrightarrow>
   a < length (lm_store (applyOps newLayerManager ops)) \<and>
   layer_id (lm_store (applyOps newLayerManager ops) ! a) = Some k"
  using sound_applyOps [OF sound_new, of ops] by (simp add: sound_def getLayer_def)

text \<open>
  The id and type of the descriptor of a layer object: an \<open>updateLayer\<close> on that
  object which returns normally sets them from the patch; any other operation leaves
  them; a new layer object has the id and type of its descriptor.
\<close>

lemma neverOverwritten_snoc:
  "neverOverwritten sel W (ops @ [op]) a =
     (neverOverwritten sel W ops a \<and> \<not> overwrites sel (applyOps W ops) op a)"
  by (induction ops arbitrary: W) (simp_all add: applyOps_def)

lemma descriptor_updated:
  assumes "getLayer W i = Some a" and "a < length (lm_store W)"
    and "fst (updateLayer W i u) = Inr ()"
  shows "cfg_id (descriptorOf (snd (updateLayer W i u)) a) =
           over (cfg_id (descriptorOf W a)) (upd_id u) \<and>
         cfg_type (descriptorOf (snd (updateLayer W i u)) a) =
           over (cfg_type (descriptorOf W a)) (upd_type u)"
proof -
  have m: "map_of (lm_layers W) (Some i) = Some a"
    using assms(1) by (simp add: getLayer_def)
  obtain r H where r: "inPlace (lm_configs W) (lm_store W ! a) u = (r, H)"
    by (cases "inPlace (lm_configs W) (lm_store W ! a) u")
  have k: "cfg_id (H ! n) = cfg_id (lm_configs W ! n) \<and> cfg_type (H ! n) = cfg_type (lm_configs W ! n)"
    for n
    using inPlace_keeps [of "lm_configs W" "lm_store W ! a" u n] r by simp
  show ?thesis
    using assms(2,3) r k
    by (cases r) (simp_all add: updateLayer_inPlace [OF m] descriptorOf_def spreadConfig_def)
qed

lemma descriptor_kept:
  assumes "sound W" and "a < length (lm_store W)"
    and "\<not> (\<exists>i u. op = UpdateLayer i u \<and> getLayer W i = Some a \<and>
              fst (updateLayer W i u) = Inr ())"
  shows "cfg_id (descriptorOf (applyOp W op) a) = cfg_id (descriptorOf W a) \<and>
         cfg_type (descriptorOf (applyOp W op) a) = cfg_type (descriptorOf W a)"
proof -
  have c: "layer_config (lm_store W ! a) < length (lm_configs W)"
    using assms(1,2) by (simp add: sound_def)
  show ?thesis
  proof (cases op)
    case (NewConfig c')
    then show ?thesis using c by (simp add: descriptorOf_def nth_append)
  next
    case (AddLayer r)
    then show ?thesis
      using assms(2) by (simp add: descriptorOf_def addLayer_def nth_append split: sum.splits)
  next
    case (RemoveLayer i)
    then show ?thesis by (simp add: descriptorOf_def removeLayer_def split: option.splits)
  next
    case (UpdateLayer i u)
    show ?thesis
    proof (cases "map_of (lm_layers W) (Some i)")
      case None
      then show ?thesis using UpdateLayer by (simp add: updateLayer_absent descriptorOf_def)
    next
      case (Some b)
      obtain r H where r: "inPlace (lm_configs W) (lm_store W ! b) u = (r, H)"
        by (cases "inPlace (lm_configs W) (lm_store W ! b) u")
      have k: "cfg_id (H ! n) = cfg_id (lm_configs W ! n) \<and>
               cfg_type (H ! n) = cfg_type (lm_configs W ! n)" for n
        using inPlace_keeps [of "lm_configs W" "lm_store W ! b" u n] r by simp
      have len: "length H = length (lm_configs W)"
        using inPlace_keeps [of "lm_configs W" "lm_store W ! b" u] r by simp
      show ?thesis
      proof (cases r)
        case (Inl e)
        then show ?thesis
          using UpdateLayer Some r k by (simp add: updateLayer_inPlace descriptorOf_def)
      next
        case (Inr x)
        then have ok: "fst (updateLayer W i u) = Inr ()"
          using Some r by (simp add: updateLayer_inPlace)
        then have "a \<noteq> b"
          using assms(3) UpdateLayer Some by (auto simp: getLayer_def)
        then show ?thesis
          using UpdateLayer Some r Inr k c len
          by (simp add: updateLayer_inPlace descriptorOf_def nth_append)
      qed
    qed
  next
    case Clear
    then show ?thesis by (simp add: descriptorOf_def clear_def)
  qed
qed

lemma descriptor_step_id:
  assumes "sound W" and "a < length (lm_store W)" and "\<not> overwrites upd_id W op a"
  shows "cfg_id (descriptorOf (applyOp W op) a) = cfg_id (descriptorOf W a)"
proof (cases "\<exists>i u. op = UpdateLayer i u \<and> getLayer W i = Some a \<and>
                fst (updateLayer W i u) = Inr ()")
  case True
  then obtain i u where o: "op = UpdateLayer i u" "getLayer W i = Some a"
      "fst (updateLayer W i u) = Inr ()"
    by blast
  then have "upd_id u = Absent" using assms(3) by simp
  then show ?thesis
    using descriptor_updated [OF o(2) assms(2) o(3)] o(1) by (simp add: over_def)
next
  case False
  then show ?thesis using descriptor_kept [OF assms(1,2)] by blast
qed

lemma descriptor_step_type:
  assumes "sound W" and "a < length (lm_store W)" and "\<not> overwrites upd_type W op a"
  shows "cfg_type (descriptorOf (applyOp W op) a) = cfg_type (descriptorOf W a)"
proof (cases "\<exists>i u. op = UpdateLayer i u \<and> getLayer W i = Some a \<and>
                fst (updateLayer W i u) = Inr ()")
  case True
  then obtain i u where o: "op = UpdateLayer i u" "getLayer W i = Some a"
      "fst (updateLayer W i u) = Inr ()"
    by blast
  then have "upd_type u = Absent" using assms(3) by simp
  then show ?thesis
    using descriptor_updated [OF o(2) assms(2) o(3)] o(1) by (simp add: over_def)
next
  case False
  then show ?thesis using descriptor_kept [OF assms(1,2)] by blast
qed

lemma new_object:
  assumes "\<not> a < length (lm_store W)" and "a < length (lm_store (applyOp W op))"
  shows "cfg_id (descriptorOf (applyOp W op) a) = layer_id (lm_store (applyOp W op) ! a) \<and>
         cfg_type (descriptorOf (applyOp W op) a) = layer_type (lm_store (applyOp W op) ! a)"
proof (cases op)
  case (NewConfig c)
  then show ?thesis using assms by simp
next
  case (AddLayer r)
  then show ?thesis
    using assms
    by (auto simp: addLayer_def createLayer_def newLayer_def descriptorOf_def nth_append
        less_Suc_eq split: sum.splits if_splits)
next
  case (RemoveLayer i)
  then show ?thesis using assms by (simp add: removeLayer_def split: option.splits)
next
  case (UpdateLayer i u)
  then show ?thesis using assms by (simp add: updateLayer_store_length)
next
  case Clear
  then show ?thesis using assms by (simp add: clear_def)
qed

lemma kept_id:
  "a < length (lm_store (applyOps newLayerManager ops)) \<Longrightarrow>
   neverOverwritten upd_id newLayerManager ops a \<Longrightarrow>
   cfg_id (descriptorOf (applyOps newLayerManager ops) a) =
     layer_id (lm_store (applyOps newLayerManager ops) ! a)"
proof (induction ops rule: rev_induct)
  case Nil
  then show ?case by (simp add: applyOps_def newLayerManager_def)
next
  case (snoc op ops)
  let ?W = "applyOps newLayerManager ops"
  have s: "sound ?W" by (simp add: sound_applyOps sound_new)
  have n: "neverOverwritten upd_id newLayerManager ops a" "\<not> overwrites upd_id ?W op a"
    using snoc.prems(2) by (simp_all add: neverOverwritten_snoc)
  show ?case
  proof (cases "a < length (lm_store ?W)")
    case True
    then show ?thesis
      using snoc.IH n descriptor_step_id [OF s True n(2)] object_kept [OF True, of op]
      by (simp add: applyOps_snoc)
  next
    case False
    then show ?thesis
      using snoc.prems(1) new_object [OF False, of op] by (simp add: applyOps_snoc)
  qed
qed

lemma kept_type:
  "a < length (lm_store (applyOps newLayerManager ops)) \<Longrightarrow>
   neverOverwritten upd_type newLayerManager ops a \<Longrightarrow>
   cfg_type (descriptorOf (applyOps newLayerManager ops) a) =
     layer_type (lm_store (applyOps newLayerManager ops) ! a)"
proof (induction ops rule: rev_induct)
  case Nil
  then show ?case by (simp add: applyOps_def newLayerManager_def)
next
  case (snoc op ops)
  let ?W = "applyOps newLayerManager ops"
  have s: "sound ?W" by (simp add: sound_applyOps sound_new)
  have n: "neverOverwritten upd_type newLayerManager ops a" "\<not> overwrites upd_type ?W op a"
    using snoc.prems(2) by (simp_all add: neverOverwritten_snoc)
  show ?case
  proof (cases "a < length (lm_store ?W)")
    case True
    then show ?thesis
      using snoc.IH n descriptor_step_type [OF s True n(2)] object_kept [OF True, of op]
      by (simp add: applyOps_snoc)
  next
    case False
    then show ?thesis
      using snoc.prems(1) new_object [OF False, of op] by (simp add: applyOps_snoc)
  qed
qed

section \<open>Style patches\<close>

text \<open>
  C1. The claim: a patch \<open>{style: {opacity: 0.5}}\<close> merges \<open>opacity\<close> into the stored
  style and keeps \<open>fillColor\<close>. The code: \<open>setStyle\<close> does merge, and on the layer of
  \<open>exConfigA\<close> leaves a style with both keys in the descriptor; but \<open>updateLayer\<close>
  then spreads the whole patch, \<open>style\<close> included, into a new descriptor for the
  layer, so the layer's style is the patch's style alone and \<open>fillColor\<close> is gone.
\<close>

theorem updateLayer_style_patch_loses_fillColor:
  "setStyle [exConfigA] exLayerA [(''opacity'', JNum (Num (1/2)))] =
     [exConfigA
        \<lparr>cfg_style := Some [(''fillColor'', JStr ''#ff0000''), (''opacity'', JNum (Num (1/2)))]\<rparr>] \<and>
   updateLayer exLayers ''a'' exPatchStyle =
     (Inr (),
      \<lparr>lm_configs =
         [exConfigA
            \<lparr>cfg_style :=
               Some [(''fillColor'', JStr ''#ff0000''), (''opacity'', JNum (Num (1/2)))]\<rparr>,
          exConfigA\<lparr>cfg_style := Some [(''opacity'', JNum (Num (1/2)))]\<rparr>],
       lm_store = [exLayerA\<lparr>layer_config := 1\<rparr>],
       lm_layers = [(Some ''a'', 0)]\<rparr>) \<and>
   map_option (\<lambda>a. cfg_style (descriptorOf (snd (updateLayer exLayers ''a'' exPatchStyle)) a))
     (getLayer (snd (updateLayer exLayers ''a'' exPatchStyle)) ''a'')
     = Some (Some [(''opacity'', JNum (Num (1/2)))]) \<and>
   getProp [(''opacity'', JNum (Num (1/2)))] ''fillColor'' = JUndefined"
  by (simp add: updateLayer_def exLayers_def exPatchStyle_def emptyPatch_def setStyle_def
      exLayerA_def exConfigA_def spread_def spreadConfig_def over_def getProp_def readProp_def
      readValue_def descriptorOf_def getLayer_def)

section \<open>Failing operations\<close>

text \<open>
  C4, as stated, fails: the patch \<open>{visible: false, opacity: 1.5}\<close> makes
  \<open>updateLayer\<close> throw at the opacity, after \<open>setVisible\<close> has run; the stored layer
  was visible before the call and is not after it.
\<close>

theorem failing_updateLayer_counterexample:
  "fst (updateLayer exLayers ''a'' exPatchVisibleOpacity) = Inl OpacityOutOfRange \<and>
   map_option (\<lambda>a. cfg_visible (descriptorOf exLayers a)) (getLayer exLayers ''a'')
     = Some (Some True) \<and>
   map_option
     (\<lambda>a. cfg_visible (descriptorOf (snd (updateLayer exLayers ''a'' exPatchVisibleOpacity)) a))
     (getLayer (snd (updateLayer exLayers ''a'' exPatchVisibleOpacity)) ''a'')
     = Some (Some False)"
  by (simp add: updateLayer_def exLayers_def exPatchVisibleOpacity_def emptyPatch_def
      setVisible_def setOpacity_def exLayerA_def exConfigA_def getLayer_def descriptorOf_def
      readProp_def)

text \<open>
  The descriptor is written in place, so the write reaches every layer object that
  holds it: after \<open>addLayer(c); removeLayer('a'); addLayer(c)\<close> the two layer objects
  share \<open>c\<close>, and the failing update of the second one changes what the first one,
  no longer registered, shows as well.
\<close>

lemma shared_descriptor_written:
  "applyOps newLayerManager [NewConfig exConfigA, AddLayer 0, RemoveLayer ''a'', AddLayer 0] =
     \<lparr>lm_configs = [exConfigA], lm_store = [exLayerA, exLayerA], lm_layers = [(Some ''a'', 1)]\<rparr> \<and>
   fst (updateLayer
          \<lparr>lm_configs = [exConfigA], lm_store = [exLayerA, exLayerA],
           lm_layers = [(Some ''a'', 1)]\<rparr> ''a'' exPatchVisibleOpacity) = Inl OpacityOutOfRange \<and>
   map (\<lambda>a. cfg_visible
          (descriptorOf
             (snd (updateLayer
                \<lparr>lm_configs = [exConfigA], lm_store = [exLayerA, exLayerA],
                 lm_layers = [(Some ''a'', 1)]\<rparr> ''a'' exPatchVisibleOpacity)) a)) [0, 1]
     = [Some False, Some False]"
  by (simp add: applyOps_def addLayer_def removeLayer_def newLayerManager_def createLayer_def
      newLayer_def validateConfig_def updateLayer_def exPatchVisibleOpacity_def emptyPatch_def
      setVisible_def setOpacity_def exLayerA_def exConfigA_def descriptorOf_def readProp_def
      Let_def)

lemma updateLayer_fails:
  assumes "fst (updateLayer W i u) = Inl e" and "getLayer W i = Some a"
  shows "e = OpacityOutOfRange \<and>
         snd (updateLayer W i u) =
           W\<lparr>lm_configs := (lm_configs W)
              [layer_config (lm_store W ! a) := (descriptorOf W a)
                 \<lparr>cfg_style :=
                    (case readProp (upd_style u) of
                       None \<Rightarrow> cfg_style (descriptorOf W a)
                     | Some st \<Rightarrow>
                         Some (spread (case cfg_style (descriptorOf W a) of
                                         None \<Rightarrow> [] | Some s \<Rightarrow> s) st)),
                  cfg_visible :=
                    (case readProp (upd_visible u) of
                       None \<Rightarrow> cfg_visible (descriptorOf W a)
                     | Some v \<Rightarrow> Some v)\<rparr>]\<rparr>"
proof (cases "layer_config (lm_store W ! a) < length (lm_configs W)")
  case True
  then show ?thesis
    using assms
    by (auto simp: updateLayer_def getLayer_def Let_def setStyle_def setVisible_def
        setOpacity_def descriptorOf_def split: option.splits sum.splits if_splits)
next
  case False
  then show ?thesis
    using assms
    by (auto simp: updateLayer_def getLayer_def Let_def setStyle_def setVisible_def
        setOpacity_def descriptorOf_def list_update_beyond
        split: option.splits sum.splits if_splits)
qed

lemma updateLayer_fails_early:
  "fst (updateLayer W i u) = Inl e \<Longrightarrow> readProp (upd_style u) = None \<Longrightarrow>
   readProp (upd_visible u) = None \<Longrightarrow> snd (updateLayer W i u) = W"
  by (auto simp: updateLayer_def Let_def split: option.splits sum.splits)

lemma provider_updateLayer_fails:
  "fst (GoogleMapsProvider_updateLayer render g i u) = Inl e \<Longrightarrow>
   snd (GoogleMapsProvider_updateLayer render g i u) = g"
  by (auto simp: GoogleMapsProvider_updateLayer_def Let_def split: option.splits)

lemma provider_setters_fail:
  "(fst (GoogleMapsProvider_setLayerVisibility render g i v) = Inl e \<longrightarrow>
      snd (GoogleMapsProvider_setLayerVisibility render g i v) = g) \<and>
   (fst (GoogleMapsProvider_setLayerOpacity render g i x) = Inl e \<longrightarrow>
      snd (GoogleMapsProvider_setLayerOpacity render g i x) = g)"
  by (auto simp: GoogleMapsProvider_setLayerVisibility_def GoogleMapsProvider_setLayerOpacity_def
      BaseMapProvider_setLayerVisibility_def BaseMapProvider_setLayerOpacity_def
      provider_updateLayer_fails split: option.splits)

lemma initialize_fails: "fst (initialize P f) = Inl e \<Longrightarrow> fst (snd (initialize P f)) = f"
  by (auto simp: initialize_def createProvider_def split: if_splits)

lemma guarded_fails:
  "(ensureInitialized f = Inl e \<longrightarrow> guarded f op = (Inl e, f)) \<and>
   (ensureInitialized f = Inr p \<and> op p = (Inl e, p) \<longrightarrow> guarded f op = (Inl e, f))"
  by (auto simp: guarded_def ensureInitialized_def split: option.splits if_splits)

lemma resize_fails:
  "um_provider f = Some p \<Longrightarrow> p_resize P p = (Inl e, p) \<Longrightarrow>
   UniversalMap_resize P f = (Inl e, f)"
  by (simp add: UniversalMap_resize_def)

lemma load_segments_fail:
  "(fst (URL_onCall ds) = Throw e \<longrightarrow> snd (URL_onCall ds) = ds) \<and>
   (fst (URL_onResponse ds fr) = Throw e \<longrightarrow> snd (URL_onResponse ds fr) = ds) \<and>
   (fst (URL_onJson ds jr) = Throw e \<longrightarrow> snd (URL_onJson ds jr) = ds) \<and>
   (fst (GeoJSON_onCall ds) = Throw e \<longrightarrow> snd (GeoJSON_onCall ds) = ds) \<and>
   (fst (GeoJSON_onResponse ds fr) = Throw e \<longrightarrow> snd (GeoJSON_onResponse ds fr) = ds) \<and>
   (fst (GeoJSON_onJson ds jr) = Throw e \<longrightarrow> snd (GeoJSON_onJson ds jr) = ds)"
  by (auto simp: URL_onCall_def URL_onResponse_def URL_onJson_def GeoJSON_onCall_def
      GeoJSON_onResponse_def GeoJSON_onJson_def
      split: fetchResult.splits jsonResult.splits jsval.splits if_splits)

text \<open>
  C4, amended. Each of the operations below, when it throws, leaves the state as it
  was, but for \<open>LayerManager.updateLayer\<close> on a registered layer.

  In the layer manager: a failing \<open>addLayer\<close>, an \<open>updateLayer\<close> on an id that is not
  registered, and a failing \<open>updateLayer\<close> whose patch has neither a style nor a
  visible flag, leave the manager and the descriptors as they were. A failing
  \<open>updateLayer\<close> on a registered layer fails at the opacity; the registry, the layer
  objects and every other descriptor are as they were, and the descriptor of the layer
  has the patch's style merged into its style and the patch's visible flag as its
  visible flag, its other fields unchanged. That descriptor is changed for every
  layer object that holds it.

  Elsewhere: a failing \<open>registerSource\<close> leaves the data source manager as it was; a
  failing \<open>updateLayer\<close>, \<open>setLayerVisibility\<close> or \<open>setLayerOpacity\<close> of
  \<open>GoogleMapsProvider\<close> leaves the provider as it was; a failing \<open>initialize\<close> leaves
  the facade as it was; a guarded method of the facade that fails because the facade is
  not initialised, or because the provider's method throws and leaves the provider as
  it was, leaves the facade as it was, and so does \<open>resize\<close> when the provider's
  \<open>resize\<close> throws and leaves the provider as it was; and a segment of the \<open>load\<close>
  of a URL or GeoJSON data source that throws leaves the instance as it was.
\<close>

theorem failing_operation_effect:
  "(fst (addLayer W r) = Inl e \<longrightarrow> snd (addLayer W r) = W) \<and>
   (getLayer W i = None \<longrightarrow> updateLayer W i u = (Inl (LayerNotFound i), W)) \<and>
   (fst (updateLayer W i u) = Inl e \<and> readProp (upd_style u) = None \<and>
      readProp (upd_visible u) = None \<longrightarrow> snd (updateLayer W i u) = W) \<and>
   (fst (updateLayer W i u) = Inl e \<and> getLayer W i = Some a \<longrightarrow>
      e = OpacityOutOfRange \<and>
      snd (updateLayer W i u) =
        W\<lparr>lm_configs := (lm_configs W)
           [layer_config (lm_store W ! a) := (descriptorOf W a)
              \<lparr>cfg_style :=
                 (case readProp (upd_style u) of
                    None \<Rightarrow> cfg_style (descriptorOf W a)
                  | Some st \<Rightarrow>
                      Some (spread (case cfg_style (descriptorOf W a) of
                                      None \<Rightarrow> [] | Some s \<Rightarrow> s) st)),
               cfg_visible :=
                 (case readProp (upd_visible u) of
                    None \<Rightarrow> cfg_visible (descriptorOf W a)
                  | Some v \<Rightarrow> Some v)\<rparr>]\<rparr>) \<and>
   (fst (registerSource m j d) = Inl e \<longrightarrow> snd (registerSource m j d) = m) \<and>
   (fst (GoogleMapsProvider_updateLayer render g i u) = Inl e \<longrightarrow>
      snd (GoogleMapsProvider_updateLayer render g i u) = g) \<and>
   (fst (GoogleMapsProvider_setLayerVisibility render g i vis) = Inl e \<longrightarrow>
      snd (GoogleMapsProvider_setLayerVisibility render g i vis) = g) \<and>
   (fst (GoogleMapsProvider_setLayerOpacity render g i x) = Inl e \<longrightarrow>
      snd (GoogleMapsProvider_setLayerOpacity render g i x) = g) \<and>
   (fst (initialize P f) = Inl e \<longrightarrow> fst (snd (initialize P f)) = f) \<and>
   (ensureInitialized f = Inl e \<longrightarrow> guarded f op = (Inl e, f)) \<and>
   (ensureInitialized f = Inr p \<and> op p = (Inl e, p) \<longrightarrow> guarded f op = (Inl e, f)) \<and>
   (um_provider f = Some p \<and> p_resize P p = (Inl e, p) \<longrightarrow>
      UniversalMap_resize P f = (Inl e, f)) \<and>
   (fst (URL_onCall ds) = Throw e \<longrightarrow> snd (URL_onCall ds) = ds) \<and>
   (fst (URL_onResponse ds fr) = Throw e \<longrightarrow> snd (URL_onResponse ds fr) = ds) \<and>
   (fst (URL_onJson ds jr) = Throw e \<longrightarrow> snd (URL_onJson ds jr) = ds) \<and>
   (fst (GeoJSON_onCall ds) = Throw e \<longrightarrow> snd (GeoJSON_onCall ds) = ds) \<and>
   (fst (GeoJSON_onResponse ds fr) = Throw e \<longrightarrow> snd (GeoJSON_onResponse ds fr) = ds) \<and>
   (fst (GeoJSON_onJson ds jr) = Throw e \<longrightarrow> snd (GeoJSON_onJson ds jr) = ds)"
proof -
  have 1: "fst (addLayer W r) = Inl e \<longrightarrow> snd (addLayer W r) = W"
    by (auto simp: addLayer_def split: sum.splits if_splits)
  have 2: "getLayer W i = None \<longrightarrow> updateLayer W i u = (Inl (LayerNotFound i), W)"
    by (simp add: getLayer_def updateLayer_def)
  have 3: "fst (registerSource m j d) = Inl e \<longrightarrow> snd (registerSource m j d) = m"
    by (auto simp: registerSource_def split: sum.splits)
  show ?thesis
    apply (intro conjI)
    subgoal by (rule 1)
    subgoal by (rule 2)
    subgoal using updateLayer_fails_early [of W i u e] by blast
    subgoal using updateLayer_fails [of W i u e a] by blast
    subgoal by (rule 3)
    subgoal using provider_updateLayer_fails [of render g i u e] by blast
    subgoal using provider_setters_fail [of render g i vis e x] by blast
    subgoal using provider_setters_fail [of render g i vis e x] by blast
    subgoal using initialize_fails [of P f e] by blast
    subgoal using guarded_fails [of f e op p] by blast
    subgoal using guarded_fails [of f e op p] by blast
    subgoal using resize_fails [of f p P e] by blast
    subgoal using load_segments_fail [of ds e fr jr] by blast
    subgoal using load_segments_fail [of ds e fr jr] by blast
    subgoal using load_segments_fail [of ds e fr jr] by blast
    subgoal using load_segments_fail [of ds e fr jr] by blast
    subgoal using load_segments_fail [of ds e fr jr] by blast
    subgoal using load_segments_fail [of ds e fr jr] by blast
    done
qed

theorem failing_operation_effect_witness:
  "addLayer exLayers 0 = (Inl (LayerAlreadyExists (Some ''a'')), exLayers) \<and>
   getLayer exLayers ''ghost'' = None \<and>
   updateLayer exLayers ''ghost'' exPatchStyle = (Inl (LayerNotFound ''ghost''), exLayers) \<and>
   readProp (upd_style exPatchOpacity) = None \<and> readProp (upd_visible exPatchOpacity) = None \<and>
   updateLayer exLayers ''a'' exPatchOpacity = (Inl OpacityOutOfRange, exLayers) \<and>
   getLayer exLayers ''a'' = Some 0 \<and>
   updateLayer exLayers ''a'' exPatchVisibleOpacity =
     (Inl OpacityOutOfRange, exLayers\<lparr>lm_configs := [exConfigA\<lparr>cfg_visible := Some False\<rparr>]\<rparr>) \<and>
   registerSource exManager ''y'' [(''type'', JStr ''custom'')] =
     (Inl (UnsupportedDataSourceType (JStr ''custom'')), exManager) \<and>
   GoogleMapsProvider_updateLayer (\<lambda>lm i c. lm) exGoogle ''ghost'' exPatchStyle =
     (Inl (ProviderLayerNotFound ''ghost''), exGoogle) \<and>
   GoogleMapsProvider_setLayerVisibility (\<lambda>lm i c. lm) exGoogleUninitialized ''a'' False =
     (Inl LayerManagerNotInitialized, exGoogleUninitialized) \<and>
   GoogleMapsProvider_setLayerOpacity (\<lambda>lm i c. lm) exGoogleUninitialized ''a'' (Num (1/2)) =
     (Inl LayerManagerNotInitialized, exGoogleUninitialized) \<and>
   fst (initialize exProvider exMap) =
     Inl (MapError ''Failed to initialize map'' ''INIT_ERROR''
            (Some (MapError ''Provider not yet implemented'' ''PROVIDER_NOT_FOUND'' None))) \<and>
   fst (snd (initialize exProvider exMap)) = exMap \<and>
   ensureInitialized exMap = Inl notInitialized \<and>
   UniversalMap_updateLayer exFailingProvider exMap ''a'' exPatchStyle
     = (Inl notInitialized, exMap) \<and>
   ensureInitialized exMapInitialized = Inr () \<and>
   UniversalMap_updateLayer exFailingProvider exMapInitialized ''a'' exPatchStyle
     = (Inl TypeError, exMapInitialized) \<and>
   UniversalMap_resize exFailingProvider exMapInitialized = (Inl TypeError, exMapInitialized) \<and>
   URL_onCall (newBaseDataSource URLDataSource [(''type'', JStr ''url'')]) =
     (Throw UrlRequired, newBaseDataSource URLDataSource [(''type'', JStr ''url'')]) \<and>
   URL_onResponse exUrlSource (FetchResponse False ''Not Found'') =
     (Throw (LoadDataFailed ''Not Found''), exUrlSource) \<and>
   URL_onJson exUrlSource (JsonRejected (JStr ''SyntaxError'')) =
     (Throw (Rejected (JStr ''SyntaxError'')), exUrlSource) \<and>
   GeoJSON_onCall (newBaseDataSource GeoJSONDataSource [(''type'', JStr ''geojson'')]) =
     (Throw GeoJSONRequired, newBaseDataSource GeoJSONDataSource [(''type'', JStr ''geojson'')]) \<and>
   GeoJSON_onResponse exGeoSource (FetchRejected (JStr ''TypeError: Failed to fetch'')) =
     (Throw (Rejected (JStr ''TypeError: Failed to fetch'')), exGeoSource) \<and>
   GeoJSON_onJson exGeoSource (JsonRejected (JStr ''SyntaxError'')) =
     (Throw (Rejected (JStr ''SyntaxError'')), exGeoSource)"
proof -
  have a: "fst (addLayer exLayers 0) = Inl (LayerAlreadyExists (Some ''a''))"
    by (simp add: addLayer_def exLayers_def exConfigA_def)
  have g: "getLayer exLayers ''ghost'' = None" "getLayer exLayers ''a'' = Some 0"
    by (simp_all add: getLayer_def exLayers_def)
  have b: "fst (updateLayer exLayers ''a'' exPatchOpacity) = Inl OpacityOutOfRange"
    "readProp (upd_style exPatchOpacity) = None" "readProp (upd_visible exPatchOpacity) = None"
    by (simp_all add: updateLayer_def exLayers_def exPatchOpacity_def emptyPatch_def
        setOpacity_def readProp_def)
  have c: "fst (updateLayer exLayers ''a'' exPatchVisibleOpacity) = Inl OpacityOutOfRange"
    by (simp add: updateLayer_def exLayers_def exPatchVisibleOpacity_def emptyPatch_def
        setOpacity_def readProp_def Let_def)
  have d: "readProp (upd_style exPatchVisibleOpacity) = None"
    "readProp (upd_visible exPatchVisibleOpacity) = Some False"
    "layer_config (lm_store exLayers ! 0) = 0" "descriptorOf exLayers 0 = exConfigA"
    "lm_configs exLayers = [exConfigA]"
    by (simp_all add: exPatchVisibleOpacity_def emptyPatch_def readProp_def exLayers_def
        exLayerA_def descriptorOf_def)
  have r: "fst (registerSource exManager ''y'' [(''type'', JStr ''custom'')])
     = Inl (UnsupportedDataSourceType (JStr ''custom''))"
    by (simp add: registerSource_def createDataSource_def getProp_def)
  have p: "fst (GoogleMapsProvider_updateLayer (\<lambda>lm i c. lm) exGoogle ''ghost'' exPatchStyle)
     = Inl (ProviderLayerNotFound ''ghost'')"
    "fst (GoogleMapsProvider_setLayerVisibility (\<lambda>lm i c. lm) exGoogleUninitialized ''a'' False)
     = Inl LayerManagerNotInitialized"
    "fst (GoogleMapsProvider_setLayerOpacity (\<lambda>lm i c. lm) exGoogleUninitialized ''a''
            (Num (1/2))) = Inl LayerManagerNotInitialized"
    by (simp_all add: GoogleMapsProvider_updateLayer_def GoogleMapsProvider_setLayerVisibility_def
        GoogleMapsProvider_setLayerOpacity_def BaseMapProvider_setLayerVisibility_def
        BaseMapProvider_setLayerOpacity_def exGoogle_def exGoogleUninitialized_def)
  have n: "fst (initialize exProvider exMap) =
     Inl (MapError ''Failed to initialize map'' ''INIT_ERROR''
            (Some (MapError ''Provider not yet implemented'' ''PROVIDER_NOT_FOUND'' None)))"
    by (simp add: initialize_def createProvider_def exMap_def)
  have e: "ensureInitialized exMap = Inl notInitialized"
    "ensureInitialized exMapInitialized = Inr ()" "um_provider exMapInitialized = Some ()"
    "p_updateLayer exFailingProvider () ''a'' exPatchStyle = (Inl TypeError, ())"
    "p_resize exFailingProvider () = (Inl TypeError, ())"
    by (simp_all add: ensureInitialized_def exMap_def exMapInitialized_def
        exFailingProvider_def)
  have s: "fst (URL_onCall (newBaseDataSource URLDataSource [(''type'', JStr ''url'')]))
     = Throw UrlRequired"
    "fst (URL_onResponse exUrlSource (FetchResponse False ''Not Found''))
     = Throw (LoadDataFailed ''Not Found'')"
    "fst (URL_onJson exUrlSource (JsonRejected (JStr ''SyntaxError'')))
     = Throw (Rejected (JStr ''SyntaxError''))"
    "fst (GeoJSON_onCall (newBaseDataSource GeoJSONDataSource [(''type'', JStr ''geojson'')]))
     = Throw GeoJSONRequired"
    "fst (GeoJSON_onResponse exGeoSource (FetchRejected (JStr ''TypeError: Failed to fetch'')))
     = Throw (Rejected (JStr ''TypeError: Failed to fetch''))"
    "fst (GeoJSON_onJson exGeoSource (JsonRejected (JStr ''SyntaxError'')))
     = Throw (Rejected (JStr ''SyntaxError''))"
    by (simp_all add: URL_onCall_def URL_onResponse_def URL_onJson_def GeoJSON_onCall_def
        GeoJSON_onResponse_def GeoJSON_onJson_def newBaseDataSource_def getProp_def)
  have 1: "addLayer exLayers 0 = (Inl (LayerAlreadyExists (Some ''a'')), exLayers)"
    using failing_operation_effect [where W = exLayers and r = 0
        and e = "LayerAlreadyExists (Some ''a'')", THEN conjunct1] a
    by (simp add: prod_eq_iff)
  have 2: "updateLayer exLayers ''ghost'' exPatchStyle = (Inl (LayerNotFound ''ghost''), exLayers)"
    using failing_operation_effect [where W = exLayers and i = "''ghost''" and u = exPatchStyle,
        THEN conjunct2, THEN conjunct1]
      g(1)
    by simp
  have 3: "updateLayer exLayers ''a'' exPatchOpacity = (Inl OpacityOutOfRange, exLayers)"
    using failing_operation_effect [where W = exLayers and i = "''a''" and u = exPatchOpacity
        and e = OpacityOutOfRange, THEN conjunct2, THEN conjunct2, THEN conjunct1] b
    by (simp add: prod_eq_iff)
  have 4: "updateLayer exLayers ''a'' exPatchVisibleOpacity =
     (Inl OpacityOutOfRange, exLayers\<lparr>lm_configs := [exConfigA\<lparr>cfg_visible := Some False\<rparr>]\<rparr>)"
    using failing_operation_effect [where W = exLayers and i = "''a''"
        and u = exPatchVisibleOpacity and e = OpacityOutOfRange and a = 0,
        THEN conjunct2, THEN conjunct2, THEN conjunct2, THEN conjunct1] c g(2) d
    by (simp add: prod_eq_iff)
  have 5: "registerSource exManager ''y'' [(''type'', JStr ''custom'')] =
     (Inl (UnsupportedDataSourceType (JStr ''custom'')), exManager)"
    using failing_operation_effect [where m = exManager and j = "''y''"
        and d = "[(''type'', JStr ''custom'')]"
        and e = "UnsupportedDataSourceType (JStr ''custom'')",
        THEN conjunct2, THEN conjunct2, THEN conjunct2, THEN conjunct2, THEN conjunct1] r
    by (simp add: prod_eq_iff)
  have 6: "GoogleMapsProvider_updateLayer (\<lambda>lm i c. lm) exGoogle ''ghost'' exPatchStyle =
     (Inl (ProviderLayerNotFound ''ghost''), exGoogle)"
    using failing_operation_effect [where render = "\<lambda>lm i c. lm" and g = exGoogle
        and i = "''ghost''" and u = exPatchStyle and e = "ProviderLayerNotFound ''ghost''",
        THEN conjunct2, THEN conjunct2, THEN conjunct2, THEN conjunct2, THEN conjunct2,
        THEN conjunct1] p(1)
    by (simp add: prod_eq_iff)
  have 7: "GoogleMapsProvider_setLayerVisibility (\<lambda>lm i c. lm) exGoogleUninitialized ''a'' False =
     (Inl LayerManagerNotInitialized, exGoogleUninitialized)"
    "GoogleMapsProvider_setLayerOpacity (\<lambda>lm i c. lm) exGoogleUninitialized ''a'' (Num (1/2)) =
     (Inl LayerManagerNotInitialized, exGoogleUninitialized)"
    using failing_operation_effect [where render = "\<lambda>lm i c. lm" and g = exGoogleUninitialized
        and i = "''a''" and vis = False and e = LayerManagerNotInitialized,
        THEN conjunct2, THEN conjunct2, THEN conjunct2, THEN conjunct2, THEN conjunct2,
        THEN conjunct2, THEN conjunct1]
      failing_operation_effect [where render = "\<lambda>lm i c. lm" and g = exGoogleUninitialized
        and i = "''a''" and x = "Num (1/2)" and e = LayerManagerNotInitialized,
        THEN conjunct2, THEN conjunct2, THEN conjunct2, THEN conjunct2, THEN conjunct2,
        THEN conjunct2, THEN conjunct2, THEN conjunct1]
      p(2,3)
    by (simp_all add: prod_eq_iff)
  have 8: "fst (snd (initialize exProvider exMap)) = exMap"
    using failing_operation_effect [where P = exProvider and f = exMap
        and e = "MapError ''Failed to initialize map'' ''INIT_ERROR''
            (Some (MapError ''Provider not yet implemented'' ''PROVIDER_NOT_FOUND'' None))",
        THEN conjunct2, THEN conjunct2, THEN conjunct2, THEN conjunct2, THEN conjunct2,
        THEN conjunct2, THEN conjunct2, THEN conjunct2, THEN conjunct1] n
    by simp
  have 9: "UniversalMap_updateLayer exFailingProvider exMap ''a'' exPatchStyle
     = (Inl notInitialized, exMap)"
    using failing_operation_effect [where f = exMap and e = notInitialized
        and op = "\<lambda>p. p_updateLayer exFailingProvider p ''a'' exPatchStyle",
        THEN conjunct2, THEN conjunct2, THEN conjunct2, THEN conjunct2, THEN conjunct2,
        THEN conjunct2, THEN conjunct2, THEN conjunct2, THEN conjunct2, THEN conjunct1] e(1)
    by (simp add: UniversalMap_updateLayer_def)
  have 10: "UniversalMap_updateLayer exFailingProvider exMapInitialized ''a'' exPatchStyle
     = (Inl TypeError, exMapInitialized)"
    "UniversalMap_resize exFailingProvider exMapInitialized = (Inl TypeError, exMapInitialized)"
    using failing_operation_effect [where f = exMapInitialized and e = TypeError and p = "()"
        and op = "\<lambda>p. p_updateLayer exFailingProvider p ''a'' exPatchStyle",
        THEN conjunct2, THEN conjunct2, THEN conjunct2, THEN conjunct2, THEN conjunct2,
        THEN conjunct2, THEN conjunct2, THEN conjunct2, THEN conjunct2, THEN conjunct2,
        THEN conjunct1]
      failing_operation_effect [where f = exMapInitialized and e = TypeError and p = "()"
        and P = exFailingProvider,
        THEN conjunct2, THEN conjunct2, THEN conjunct2, THEN conjunct2, THEN conjunct2,
        THEN conjunct2, THEN conjunct2, THEN conjunct2, THEN conjunct2, THEN conjunct2,
        THEN conjunct2, THEN conjunct1] e(2-5)
    by (simp_all add: UniversalMap_updateLayer_def)
  have 11: "URL_onCall (newBaseDataSource URLDataSource [(''type'', JStr ''url'')]) =
     (Throw UrlRequired, newBaseDataSource URLDataSource [(''type'', JStr ''url'')])"
    using failing_operation_effect
      [where ds = "newBaseDataSource URLDataSource [(''type'', JStr ''url'')]"
        and e = UrlRequired,
        THEN conjunct2, THEN conjunct2, THEN conjunct2, THEN conjunct2, THEN conjunct2,
        THEN conjunct2, THEN conjunct2, THEN conjunct2, THEN conjunct2, THEN conjunct2,
        THEN conjunct2, THEN conjunct2, THEN conjunct1] s(1)
    by (simp add: prod_eq_iff)
  have 12: "URL_onResponse exUrlSource (FetchResponse False ''Not Found'') =
     (Throw (LoadDataFailed ''Not Found''), exUrlSource)"
    using failing_operation_effect [where ds = exUrlSource
        and fr = "FetchResponse False ''Not Found''" and e = "LoadDataFailed ''Not Found''",
        THEN conjunct2, THEN conjunct2, THEN conjunct2, THEN conjunct2, THEN conjunct2,
        THEN conjunct2, THEN conjunct2, THEN conjunct2, THEN conjunct2, THEN conjunct2,
        THEN conjunct2, THEN conjunct2, THEN conjunct2, THEN conjunct1] s(2)
    by (simp add: prod_eq_iff)
  have 13: "URL_onJson exUrlSource (JsonRejected (JStr ''SyntaxError'')) =
     (Throw (Rejected (JStr ''SyntaxError'')), exUrlSource)"
    using failing_operation_effect [where ds = exUrlSource
        and jr = "JsonRejected (JStr ''SyntaxError'')"
        and e = "Rejected (JStr ''SyntaxError'')",
        THEN conjunct2, THEN conjunct2, THEN conjunct2, THEN conjunct2, THEN conjunct2,
        THEN conjunct2, THEN conjunct2, THEN conjunct2, THEN conjunct2, THEN conjunct2,
        THEN conjunct2, THEN conjunct2, THEN conjunct2, THEN conjunct2, THEN conjunct1] s(3)
    by (simp add: prod_eq_iff)
  have 14: "GeoJSON_onCall (newBaseDataSource GeoJSONDataSource [(''type'', JStr ''geojson'')]) =
     (Throw GeoJSONRequired, newBaseDataSource GeoJSONDataSource [(''type'', JStr ''geojson'')])"
    using failing_operation_effect
      [where ds = "newBaseDataSource GeoJSONDataSource [(''type'', JStr ''geojson'')]"
        and e = GeoJSONRequired,
        THEN conjunct2, THEN conjunct2, THEN conjunct2, THEN conjunct2, THEN conjunct2,
        THEN conjunct2, THEN conjunct2, THEN conjunct2, THEN conjunct2, THEN conjunct2,
        THEN conjunct2, THEN conjunct2, THEN conjunct2, THEN conjunct2, THEN conjunct2,
        THEN conjunct1] s(4)
    by (simp add: prod_eq_iff)
  have 15: "GeoJSON_onResponse exGeoSource (FetchRejected (JStr ''TypeError: Failed to fetch'')) =
     (Throw (Rejected (JStr ''TypeError: Failed to fetch'')), exGeoSource)"
    using failing_operation_effect [where ds = exGeoSource
        and fr = "FetchRejected (JStr ''TypeError: Failed to fetch'')"
        and e = "Rejected (JStr ''TypeError: Failed to fetch'')",
        THEN conjunct2, THEN conjunct2, THEN conjunct2, THEN conjunct2, THEN conjunct2,
        THEN conjunct2, THEN conjunct2, THEN conjunct2, THEN conjunct2, THEN conjunct2,
        THEN conjunct2, THEN conjunct2, THEN conjunct2, THEN conjunct2, THEN conjunct2,
        THEN conjunct2, THEN conjunct1] s(5)
    by (simp add: prod_eq_iff)
  have 16: "GeoJSON_onJson exGeoSource (JsonRejected (JStr ''SyntaxError'')) =
     (Throw (Rejected (JStr ''SyntaxError'')), exGeoSource)"
    using failing_operation_effect [where ds = exGeoSource
        and jr = "JsonRejected (JStr ''SyntaxError'')"
        and e = "Rejected (JStr ''SyntaxError'')",
        THEN conjunct2, THEN conjunct2, THEN conjunct2, THEN conjunct2, THEN conjunct2,
        THEN conjunct2, THEN conjunct2, THEN conjunct2, THEN conjunct2, THEN conjunct2,
        THEN conjunct2, THEN conjunct2, THEN conjunct2, THEN conjunct2, THEN conjunct2,
        THEN conjunct2, THEN conjunct2] s(6)
    by (simp add: prod_eq_iff)
  from 1 g 2 b(2,3) 3 4 5 6 7 n 8 e(1,2) 9 10 11 12 13 14 15 16 show ?thesis
    by (intro conjI) assumption+
qed

section \<open>Opacity through a provider\<close>

text \<open>
  For a registered id the two setters are the provider's \<open>updateLayer\<close> on a
  one-field patch, and the core \<open>LayerManager.updateLayer\<close> rejects such a patch when
  the opacity is out of range, leaving the state as it was.
\<close>

lemma setLayerOpacity_is_updateLayer:
  "lyrs p i = Some l \<Longrightarrow>
   BaseMapProvider_setLayerOpacity upd lyrs p i x =
     upd p i (emptyPatch\<lparr>upd_opacity := Present (Some x)\<rparr>)"
  by (simp add: BaseMapProvider_setLayerOpacity_def)

lemma setLayerVisibility_is_updateLayer:
  "lyrs p i = Some l \<Longrightarrow>
   BaseMapProvider_setLayerVisibility upd lyrs p i v =
     upd p i (emptyPatch\<lparr>upd_visible := Present (Some v)\<rparr>)"
  by (simp add: BaseMapProvider_setLayerVisibility_def)

lemma updateLayer_opacity_out_of_range:
  "getLayer W i = Some a \<Longrightarrow> num_less x (Num 0) \<or> num_less (Num 1) x \<Longrightarrow>
   updateLayer W i (emptyPatch\<lparr>upd_opacity := Present (Some x)\<rparr>) = (Inl OpacityOutOfRange, W)"
  by (auto simp: getLayer_def updateLayer_def emptyPatch_def setOpacity_def readProp_def)

text \<open>
  C5. The claim: \<open>setLayerOpacity(id, 1.5)\<close> on a registered layer fails and leaves
  the stored opacity as it was. The code: \<open>BaseLayer.setOpacity\<close> rejects 1.5, but
  \<open>BaseMapProvider.setLayerOpacity\<close> calls the provider's own \<open>updateLayer\<close>, and
  that of \<open>GoogleMapsProvider\<close> spreads the patch over the stored descriptor with
  no check: the call returns normally and the stored opacity is 1.5.
\<close>

theorem setLayerOpacity_accepts_out_of_range:
  "setOpacity [exConfigA] exLayerA (Num (3/2)) = Inl OpacityOutOfRange \<and>
   GoogleMapsProvider_setLayerOpacity (\<lambda>lm i c. lm) exGoogle ''a'' (Num (3/2)) =
     (Inr (),
      \<lparr>gp_layerManager = Some (),
       gp_layers = [''a'' \<mapsto> exConfigA\<lparr>cfg_opacity := Some (Num (3/2))\<rparr>]\<rparr>) \<and>
   cfg_opacity exConfigA = Some (Num 1)"
  by (simp add: setOpacity_def GoogleMapsProvider_setLayerOpacity_def
      BaseMapProvider_setLayerOpacity_def GoogleMapsProvider_updateLayer_def exGoogle_def
      emptyPatch_def spreadConfig_def over_def exConfigA_def)

section \<open>Duplicate layer ids\<close>

lemma one_entry:
  "distinct (map fst al) \<Longrightarrow> map_of al k = Some v \<Longrightarrow>
   length (filter (\<lambda>e. fst e = k) al) = 1"
proof (induction al)
  case Nil
  then show ?case by simp
next
  case (Cons e al)
  show ?case
  proof (cases "fst e = k")
    case True
    with Cons.prems(1) have "k \<notin> fst ` set al" by auto
    then have "filter (\<lambda>e. fst e = k) al = []"
      by (auto simp: filter_empty_conv)
    with True show ?thesis by simp
  next
    case False
    with Cons show ?thesis by (cases e) auto
  qed
qed

lemma applyOp_distinct:
  "distinct (map fst (lm_layers W)) \<Longrightarrow> distinct (map fst (lm_layers (applyOp W op)))"
  by (cases op)
     (auto simp: addLayer_def removeLayer_def clear_def updateLayer_layers distinct_update
       distinct_delete split: sum.splits option.splits)

lemma applyOps_distinct: "distinct (map fst (lm_layers (applyOps newLayerManager ops)))"
  by (induction ops rule: rev_induct)
     (simp_all add: applyOps_def applyOp_distinct newLayerManager_def)

text \<open>
  C6. In any state a manager can reach, when the registry already holds a layer
  under the id of the descriptor, \<open>addLayer\<close> throws "Layer with id ... already
  exists" and the manager is the one before the call: the registry has exactly one
  entry with that id, and it refers to the first layer, which is unmodified, as is its
  descriptor.
\<close>

theorem addLayer_duplicate_rejected:
  assumes "cfg_id (lm_configs (applyOps newLayerManager ops) ! r) = Some k"
    and "getLayer (applyOps newLayerManager ops) k = Some a"
  shows "addLayer (applyOps newLayerManager ops) r
           = (Inl (LayerAlreadyExists (Some k)), applyOps newLayerManager ops) \<and>
         length (filter (\<lambda>e. fst e = Some k)
                   (lm_layers (snd (addLayer (applyOps newLayerManager ops) r)))) = 1 \<and>
         getLayer (snd (addLayer (applyOps newLayerManager ops) r)) k = Some a \<and>
         lm_store (snd (addLayer (applyOps newLayerManager ops) r)) ! a
           = lm_store (applyOps newLayerManager ops) ! a \<and>
         descriptorOf (snd (addLayer (applyOps newLayerManager ops) r)) a
           = descriptorOf (applyOps newLayerManager ops) a"
proof -
  let ?W = "applyOps newLayerManager ops"
  from assms have r: "addLayer ?W r = (Inl (LayerAlreadyExists (Some k)), ?W)"
    by (simp add: addLayer_def getLayer_def)
  from assms have "length (filter (\<lambda>e. fst e = Some k) (lm_layers ?W)) = 1"
    by (intro one_entry [OF applyOps_distinct]) (simp add: getLayer_def)
  with r assms show ?thesis by simp
qed

theorem addLayer_duplicate_rejected_witness:
  "cfg_id (lm_configs
      (applyOps newLayerManager [NewConfig exConfigA, AddLayer 0, NewConfig exConfigA2]) ! 1)
     = Some ''a'' \<and>
   getLayer (applyOps newLayerManager [NewConfig exConfigA, AddLayer 0, NewConfig exConfigA2])
     ''a'' = Some 0 \<and>
   addLayer (applyOps newLayerManager [NewConfig exConfigA, AddLayer 0, NewConfig exConfigA2]) 1
     = (Inl (LayerAlreadyExists (Some ''a'')),
        exLayers\<lparr>lm_configs := [exConfigA, exConfigA2]\<rparr>) \<and>
   length (filter (\<lambda>e. fst e = Some ''a'')
     (lm_layers (snd (addLayer
        (applyOps newLayerManager [NewConfig exConfigA, AddLayer 0, NewConfig exConfigA2]) 1))))
     = 1 \<and>
   lm_store (snd (addLayer
      (applyOps newLayerManager [NewConfig exConfigA, AddLayer 0, NewConfig exConfigA2]) 1)) ! 0
     = exLayerA \<and>
   descriptorOf (snd (addLayer
      (applyOps newLayerManager [NewConfig exConfigA, AddLayer 0, NewConfig exConfigA2]) 1)) 0
     = exConfigA"
proof -
  have m: "applyOps newLayerManager [NewConfig exConfigA, AddLayer 0, NewConfig exConfigA2]
     = exLayers\<lparr>lm_configs := [exConfigA, exConfigA2]\<rparr>"
    using exLayers_built applyOps_snoc [of newLayerManager "[NewConfig exConfigA, AddLayer 0]"
        "NewConfig exConfigA2"]
    by (simp add: exLayers_def)
  have h: "cfg_id (lm_configs
      (applyOps newLayerManager [NewConfig exConfigA, AddLayer 0, NewConfig exConfigA2]) ! 1)
     = Some ''a''"
    "getLayer (applyOps newLayerManager [NewConfig exConfigA, AddLayer 0, NewConfig exConfigA2])
     ''a'' = Some 0"
    unfolding m by (simp_all add: exConfigA2_def exLayers_def getLayer_def)
  have i: "lm_store (exLayers\<lparr>lm_configs := [exConfigA, exConfigA2]\<rparr>) ! 0 = exLayerA"
    "descriptorOf (exLayers\<lparr>lm_configs := [exConfigA, exConfigA2]\<rparr>) 0 = exConfigA"
    by (simp_all add: exLayers_def descriptorOf_def exLayerA_def)
  from addLayer_duplicate_rejected [OF h] h i show ?thesis
    unfolding m by (simp add: exLayers_def)
qed

section \<open>Identity of a layer\<close>

text \<open>
  C9, as stated, fails: a patch \<open>{id: 'b'}\<close> is spread into the descriptor like
  any other field. The layer stays under the key \<open>a\<close> with \<open>id\<close> \<open>a\<close>, and its
  descriptor now says \<open>b\<close>.
\<close>

theorem descriptor_id_counterexample:
  "fst (updateLayer exLayers ''a'' exPatchId) = Inr () \<and>
   map_option layer_id (storedLayer (snd (updateLayer exLayers ''a'' exPatchId)) ''a'')
     = Some (Some ''a'') \<and>
   map_option (\<lambda>a. cfg_id (descriptorOf (snd (updateLayer exLayers ''a'' exPatchId)) a))
     (getLayer (snd (updateLayer exLayers ''a'' exPatchId)) ''a'') = Some (Some ''b'')"
  by (simp add: updateLayer_def exLayers_def exPatchId_def emptyPatch_def exLayerA_def
      exConfigA_def getLayer_def storedLayer_def descriptorOf_def spreadConfig_def over_def
      readProp_def readValue_def)

text \<open>
  A patch \<open>{id: undefined}\<close> does the same: the property is present, the spread
  copies it, and the descriptor has no id any more.
\<close>

lemma descriptor_id_undefined:
  "fst (updateLayer exLayers ''a'' exPatchIdUndefined) = Inr () \<and>
   map_option layer_id (storedLayer (snd (updateLayer exLayers ''a'' exPatchIdUndefined)) ''a'')
     = Some (Some ''a'') \<and>
   map_option (\<lambda>a. cfg_id (descriptorOf (snd (updateLayer exLayers ''a'' exPatchIdUndefined)) a))
     (getLayer (snd (updateLayer exLayers ''a'' exPatchIdUndefined)) ''a'') = Some None"
  by (simp add: updateLayer_def exLayers_def exPatchIdUndefined_def emptyPatch_def exLayerA_def
      exConfigA_def getLayer_def storedLayer_def descriptorOf_def spreadConfig_def over_def
      readProp_def readValue_def)

text \<open>
  C9, amended. Take a layer object of a manager, after any sequence of operations
  on a new manager, and any further operations. The object is still in the store,
  with the id and type it had; an entry that refers to it has its id as key. The id
  of its descriptor is the layer's id as long as no \<open>updateLayer\<close> on this layer has
  returned normally with a patch in which \<open>id\<close> is present, and likewise for the
  type. One step: an \<open>updateLayer\<close> on this layer that returns normally leaves in the
  descriptor the id and type of the patch where it has them, \<open>undefined\<close> included,
  and the former ones where it has not; every other operation, an \<open>updateLayer\<close>
  that throws or is for another or an unregistered layer among them, leaves the id and
  type of the descriptor as they were.
\<close>

theorem layer_identity_kept:
  assumes "a < length (lm_store (applyOps newLayerManager ops))"
  shows "a < length (lm_store (applyOps (applyOps newLayerManager ops) ops')) \<and>
         layer_id (lm_store (applyOps (applyOps newLayerManager ops) ops') ! a)
           = layer_id (lm_store (applyOps newLayerManager ops) ! a) \<and>
         layer_type (lm_store (applyOps (applyOps newLayerManager ops) ops') ! a)
           = layer_type (lm_store (applyOps newLayerManager ops) ! a) \<and>
         (getLayer (applyOps (applyOps newLayerManager ops) ops') k = Some a \<longrightarrow>
            layer_id (lm_store (applyOps (applyOps newLayerManager ops) ops') ! a) = Some k) \<and>
         (neverOverwritten upd_id newLayerManager (ops @ ops') a \<longrightarrow>
            cfg_id (descriptorOf (applyOps (applyOps newLayerManager ops) ops') a)
              = layer_id (lm_store (applyOps newLayerManager ops) ! a)) \<and>
         (neverOverwritten upd_type newLayerManager (ops @ ops') a \<longrightarrow>
            cfg_type (descriptorOf (applyOps (applyOps newLayerManager ops) ops') a)
              = layer_type (lm_store (applyOps newLayerManager ops) ! a)) \<and>
         (getLayer (applyOps (applyOps newLayerManager ops) ops') i = Some a \<and>
          fst (updateLayer (applyOps (applyOps newLayerManager ops) ops') i u) = Inr () \<longrightarrow>
            cfg_id (descriptorOf
                (snd (updateLayer (applyOps (applyOps newLayerManager ops) ops') i u)) a)
              = over (cfg_id (descriptorOf (applyOps (applyOps newLayerManager ops) ops') a))
                  (upd_id u) \<and>
            cfg_type (descriptorOf
                (snd (updateLayer (applyOps (applyOps newLayerManager ops) ops') i u)) a)
              = over (cfg_type (descriptorOf (applyOps (applyOps newLayerManager ops) ops') a))
                  (upd_type u)) \<and>
         (\<not> overwrites upd_id (applyOps (applyOps newLayerManager ops) ops') op a \<longrightarrow>
            cfg_id (descriptorOf (applyOp (applyOps (applyOps newLayerManager ops) ops') op) a)
              = cfg_id (descriptorOf (applyOps (applyOps newLayerManager ops) ops') a)) \<and>
         (\<not> overwrites upd_type (applyOps (applyOps newLayerManager ops) ops') op a \<longrightarrow>
            cfg_type (descriptorOf (applyOp (applyOps (applyOps newLayerManager ops) ops') op) a)
              = cfg_type (descriptorOf (applyOps (applyOps newLayerManager ops) ops') a))"
proof -
  let ?W = "applyOps newLayerManager ops"
  let ?W' = "applyOps ?W ops'"
  have e: "?W' = applyOps newLayerManager (ops @ ops')"
    by (simp add: applyOps_append)
  from objects_kept [OF assms, of ops'] have o: "a < length (lm_store ?W')"
    "layer_id (lm_store ?W' ! a) = layer_id (lm_store ?W ! a)"
    "layer_type (lm_store ?W' ! a) = layer_type (lm_store ?W ! a)"
    by simp_all
  have s: "sound ?W'"
    by (simp add: sound_applyOps sound_new)
  have k: "getLayer ?W' k = Some a \<longrightarrow> layer_id (lm_store ?W' ! a) = Some k"
    using registered_key [of "ops @ ops'" k a] by (simp add: e)
  have d1: "neverOverwritten upd_id newLayerManager (ops @ ops') a \<longrightarrow>
      cfg_id (descriptorOf ?W' a) = layer_id (lm_store ?W ! a)"
    using kept_id [of a "ops @ ops'"] o by (simp add: e)
  have d2: "neverOverwritten upd_type newLayerManager (ops @ ops') a \<longrightarrow>
      cfg_type (descriptorOf ?W' a) = layer_type (lm_store ?W ! a)"
    using kept_type [of a "ops @ ops'"] o by (simp add: e)
  have u: "getLayer ?W' i = Some a \<and> fst (updateLayer ?W' i u) = Inr () \<longrightarrow>
      cfg_id (descriptorOf (snd (updateLayer ?W' i u)) a)
        = over (cfg_id (descriptorOf ?W' a)) (upd_id u) \<and>
      cfg_type (descriptorOf (snd (updateLayer ?W' i u)) a)
        = over (cfg_type (descriptorOf ?W' a)) (upd_type u)"
    using descriptor_updated [of ?W' i a u] o(1) by blast
  have n1: "\<not> overwrites upd_id ?W' op a \<longrightarrow>
      cfg_id (descriptorOf (applyOp ?W' op) a) = cfg_id (descriptorOf ?W' a)"
    using descriptor_step_id [OF s o(1)] by blast
  have n2: "\<not> overwrites upd_type ?W' op a \<longrightarrow>
      cfg_type (descriptorOf (applyOp ?W' op) a) = cfg_type (descriptorOf ?W' a)"
    using descriptor_step_type [OF s o(1)] by blast
  show ?thesis
    apply (intro conjI)
    subgoal by (rule o(1))
    subgoal by (rule o(2))
    subgoal by (rule o(3))
    subgoal by (rule k)
    subgoal by (rule d1)
    subgoal by (rule d2)
    subgoal by (rule u)
    subgoal by (rule n1)
    subgoal by (rule n2)
    done
qed

theorem layer_identity_kept_witness:
  "0 < length (lm_store (applyOps newLayerManager [NewConfig exConfigA, AddLayer 0])) \<and>
   lm_store (applyOps newLayerManager [NewConfig exConfigA, AddLayer 0]) ! 0 = exLayerA \<and>
   fst (updateLayer exLayers ''a'' exPatchIdOpacity) = Inl OpacityOutOfRange \<and>
   upd_id exPatchIdOpacity = Present (Some ''b'') \<and>
   applyOps (applyOps newLayerManager [NewConfig exConfigA, AddLayer 0])
     [UpdateLayer ''a'' exPatchIdOpacity, UpdateLayer ''ghost'' exPatchId] = exLayers \<and>
   layer_id (lm_store exLayers ! 0) = Some ''a'' \<and>
   layer_type (lm_store exLayers ! 0) = Some ''geojson'' \<and>
   getLayer exLayers ''a'' = Some 0 \<and>
   neverOverwritten upd_id newLayerManager
     ([NewConfig exConfigA, AddLayer 0] @
      [UpdateLayer ''a'' exPatchIdOpacity, UpdateLayer ''ghost'' exPatchId]) 0 \<and>
   neverOverwritten upd_type newLayerManager
     ([NewConfig exConfigA, AddLayer 0] @
      [UpdateLayer ''a'' exPatchIdOpacity, UpdateLayer ''ghost'' exPatchId]) 0 \<and>
   cfg_id (descriptorOf exLayers 0) = Some ''a'' \<and>
   cfg_type (descriptorOf exLayers 0) = Some ''geojson'' \<and>
   fst (updateLayer exLayers ''a'' exPatchIdUndefined) = Inr () \<and>
   cfg_id (descriptorOf (snd (updateLayer exLayers ''a'' exPatchIdUndefined)) 0) = None \<and>
   cfg_type (descriptorOf (snd (updateLayer exLayers ''a'' exPatchIdUndefined)) 0)
     = Some ''geojson'' \<and>
   \<not> overwrites upd_id exLayers (UpdateLayer ''a'' exPatchIdOpacity) 0 \<and>
   \<not> overwrites upd_type exLayers (UpdateLayer ''a'' exPatchIdOpacity) 0 \<and>
   cfg_id (descriptorOf (applyOp exLayers (UpdateLayer ''a'' exPatchIdOpacity)) 0) = Some ''a'' \<and>
   cfg_type (descriptorOf (applyOp exLayers (UpdateLayer ''a'' exPatchIdOpacity)) 0)
     = Some ''geojson''"
proof -
  have m: "applyOps newLayerManager [NewConfig exConfigA, AddLayer 0] = exLayers"
    by (rule exLayers_built)
  have f: "updateLayer exLayers ''a'' exPatchIdOpacity = (Inl OpacityOutOfRange, exLayers)"
    by (simp add: updateLayer_def exLayers_def exPatchIdOpacity_def emptyPatch_def
        setOpacity_def readProp_def)
  have g: "updateLayer exLayers ''ghost'' exPatchId = (Inl (LayerNotFound ''ghost''), exLayers)"
    by (simp add: updateLayer_def exLayers_def)
  have m': "applyOps exLayers [UpdateLayer ''a'' exPatchIdOpacity,
      UpdateLayer ''ghost'' exPatchId] = exLayers"
    by (simp add: applyOps_def f g)
  have h1: "0 < length (lm_store (applyOps newLayerManager [NewConfig exConfigA, AddLayer 0]))"
    and h2: "lm_store (applyOps newLayerManager [NewConfig exConfigA, AddLayer 0]) ! 0 = exLayerA"
    unfolding m by (simp_all add: exLayers_def)
  have h3: "getLayer exLayers ''a'' = Some 0"
    "layer_id (lm_store exLayers ! 0) = Some ''a''"
    "layer_type (lm_store exLayers ! 0) = Some ''geojson''"
    by (simp_all add: getLayer_def exLayers_def exLayerA_def)
  have n: "\<not> overwrites sel exLayers (UpdateLayer ''a'' exPatchIdOpacity) 0"
    "\<not> overwrites sel exLayers (UpdateLayer ''ghost'' exPatchId) 0" for sel
    by (simp_all add: f g)
  have h4: "neverOverwritten sel newLayerManager
     ([NewConfig exConfigA, AddLayer 0] @
      [UpdateLayer ''a'' exPatchIdOpacity, UpdateLayer ''ghost'' exPatchId]) 0" for sel
    using n [of sel] m
      applyOps_snoc [of newLayerManager "[NewConfig exConfigA]" "AddLayer 0"]
    by (simp add: applyOps_def f)
  have h5: "fst (updateLayer exLayers ''a'' exPatchIdUndefined) = Inr ()"
    "upd_id exPatchIdUndefined = Present None" "upd_type exPatchIdUndefined = Absent"
    "upd_id exPatchIdOpacity = Present (Some ''b'')"
    by (simp_all add: updateLayer_def exLayers_def exPatchIdUndefined_def emptyPatch_def
        exPatchIdOpacity_def readProp_def readValue_def Let_def)
  note t = layer_identity_kept [OF h1,
      of "[UpdateLayer ''a'' exPatchIdOpacity, UpdateLayer ''ghost'' exPatchId]"
        "''a''" "''a''" exPatchIdUndefined "UpdateLayer ''a'' exPatchIdOpacity",
      unfolded m m']
  from t h3 h4 [of upd_id] h4 [of upd_type]
  have d: "cfg_id (descriptorOf exLayers 0) = Some ''a''"
    "cfg_type (descriptorOf exLayers 0) = Some ''geojson''"
    by simp_all
  from t h3 h5 d
  have u: "cfg_id (descriptorOf (snd (updateLayer exLayers ''a'' exPatchIdUndefined)) 0) = None"
    "cfg_type (descriptorOf (snd (updateLayer exLayers ''a'' exPatchIdUndefined)) 0)
       = Some ''geojson''"
    by (simp_all add: over_def)
  from t n [of upd_id] n [of upd_type] d
  have k: "cfg_id (descriptorOf (applyOp exLayers (UpdateLayer ''a'' exPatchIdOpacity)) 0)
       = Some ''a''"
    "cfg_type (descriptorOf (applyOp exLayers (UpdateLayer ''a'' exPatchIdOpacity)) 0)
       = Some ''geojson''"
    by (simp_all del: applyOp.simps overwrites.simps)
  have f': "fst (updateLayer exLayers ''a'' exPatchIdOpacity) = Inl OpacityOutOfRange"
    by (simp add: f)
  have mm: "applyOps (applyOps newLayerManager [NewConfig exConfigA, AddLayer 0])
     [UpdateLayer ''a'' exPatchIdOpacity, UpdateLayer ''ghost'' exPatchId] = exLayers"
    unfolding m by (rule m')
  from h1 h2 f' h5(4) mm h3(2,3,1) h4 [of upd_id] h4 [of upd_type] d h5(1) u
    n(1) [of upd_id] n(1) [of upd_type] k
  show ?thesis by (intro conjI) assumption+
qed

section \<open>Normalising a source\<close>

text \<open>
  C2. The claim: an object without a recognised tag, an inline GeoJSON value in
  particular, becomes \<open>{type: 'geojson', data: <object>}\<close>. The code passes every
  object with a truthy \<open>type\<close> through, and every GeoJSON value has one: the
  feature collection below comes back unchanged, under a tag that
  \<open>createDataSource\<close> rejects.
\<close>

theorem normalizeSource_passes_inline_GeoJSON_through:
  "\<not> recognizedTag (getProp exFeatureCollection ''type'') \<and>
   normalizeSource (JObj exFeatureCollection) = Inr exFeatureCollection \<and>
   createDataSource exFeatureCollection =
     Inl (UnsupportedDataSourceType (JStr ''FeatureCollection''))"
  by (simp add: exFeatureCollection_def recognizedTag_def getProp_def hasProp_def
      createDataSource_def)

lemma normalizeSource_recognized:
  "recognizedTag (getProp ob ''type'') \<Longrightarrow> normalizeSource (JObj ob) = Inr ob"
  by (auto simp: recognizedTag_def getProp_def hasProp_def split: option.splits)

lemma normalizeSource_untyped:
  "\<not> truthy (getProp ob ''type'') \<Longrightarrow>
   normalizeSource (JObj ob) = Inr [(''type'', JStr ''geojson''), (''data'', JObj ob)]"
  by simp

section \<open>Loading\<close>

lemma exUrlSource_built: "createDataSource exUrlConfig = Inr exUrlSource"
  by (simp add: createDataSource_def newURLDataSource_def exUrlSource_def exUrlConfig_def
      getProp_def)

lemma exUrlLoaded_reached:
  "lw_ds (runLoads URLDataSource_load (fresh exUrlSource)
      [CallLoad, FetchSettles 0 (FetchResponse True ''OK''),
       JsonSettles 0 (JsonParsed (JObj exFeatureCollection))]) = exUrlLoaded"
  by (simp add: runLoads_def fresh_def URLDataSource_load_def URL_onCall_def URL_onResponse_def
      URL_onJson_def exUrlSource_def newBaseDataSource_def exUrlConfig_def getProp_def
      exUrlLoaded_def)

lemma URL_call_not_loaded:
  "\<not> (ds_loaded ds \<and> truthy (ds_data ds)) \<Longrightarrow> truthy (getProp (ds_config ds) ''url'') \<Longrightarrow>
   execLoad URLDataSource_load \<lparr>lw_ds = ds, lw_net = net, lw_calls = cs\<rparr> CallLoad =
     \<lparr>lw_ds = ds, lw_net = net @ [getProp (ds_config ds) ''url''], lw_calls = cs @ [AtFetch]\<rparr>"
  by (auto simp: URLDataSource_load_def URL_onCall_def)

lemma in_flight_prefix:
  "pre @ rest = [x, y] \<Longrightarrow> rest \<noteq> [] \<Longrightarrow>
   (pre = [] \<and> rest = [x, y]) \<or> (pre = [x] \<and> rest = [y])"
  by (cases pre; cases "tl pre") auto

lemma URL_settles:
  "execLoad URLDataSource_load w (FetchSettles i r) =
     (if i < length (lw_calls w) \<and> lw_calls w ! i = AtFetch
      then \<lparr>lw_ds = lw_ds w, lw_net = lw_net w,
            lw_calls = (lw_calls w)[i := settle (fst (URL_onResponse (lw_ds w) r))]\<rparr>
      else w)"
  "execLoad URLDataSource_load w (JsonSettles i j) =
     (if i < length (lw_calls w) \<and> lw_calls w ! i = AtJson
      then \<lparr>lw_ds = snd (URL_onJson (lw_ds w) j), lw_net = lw_net w,
            lw_calls = (lw_calls w)[i := settle (fst (URL_onJson (lw_ds w) j))]\<rparr>
      else w)"
  by (auto simp: URLDataSource_load_def URL_onResponse_def URL_onJson_def
      split: fetchResult.splits jsonResult.splits)

lemma URL_onResponse_any:
  "fst (URL_onResponse d r) = fst (URL_onResponse d' r) \<and>
   settle (fst (URL_onResponse d r)) \<noteq> AtFetch"
  by (simp add: URL_onResponse_def split: fetchResult.splits)

lemma URL_onJson_any:
  "fst (URL_onJson d j) = fst (URL_onJson d' j)"
  by (simp add: URL_onJson_def split: jsonResult.splits)

text \<open>
  C3, as stated, fails: \<open>load\<close> keeps no record of a fetch in flight. Two calls
  on the instance built from \<open>exUrlConfig\<close>, the second before the first has
  settled, send two requests; and when the two responses carry different bodies,
  the two calls resolve to different payloads.
\<close>

theorem concurrent_load_counterexample:
  "lw_net (runLoads URLDataSource_load (fresh exUrlSource) [CallLoad, CallLoad])
     = [JStr ''https://x/data.json'', JStr ''https://x/data.json''] \<and>
   lw_calls (runLoads URLDataSource_load (fresh exUrlSource)
      [CallLoad, CallLoad, FetchSettles 0 (FetchResponse True ''OK''),
       FetchSettles 1 (FetchResponse True ''OK''), JsonSettles 0 (JsonParsed (JNum (Num 1))),
       JsonSettles 1 (JsonParsed (JNum (Num 2)))])
     = [Settled (Inr (JNum (Num 1))), Settled (Inr (JNum (Num 2)))]"
  by (simp add: runLoads_def fresh_def URLDataSource_load_def URL_onCall_def URL_onResponse_def
      URL_onJson_def exUrlSource_def newBaseDataSource_def exUrlConfig_def getProp_def)

text \<open>
  C3, amended. On a URL instance with a url that is not loaded, take two \<open>load\<close>
  calls, the second made at any moment while the first is in flight: before the
  fetch of the first has settled, or after it, while its body is being parsed. Each
  call sends one request. In whatever order the remaining events of the two calls
  arrive, no further request is sent, and each call settles as it would alone on
  that instance, by its own response and body: when both responses are ok and both
  bodies parse, each call resolves to the payload parsed from its own response.
\<close>

theorem concurrent_load_fetches_per_call:
  assumes nl: "\<not> (ds_loaded ds \<and> truthy (ds_data ds))"
    and u: "truthy (getProp (ds_config ds) ''url'')"
    and p: "pre @ rest = [FetchSettles 0 r0, JsonSettles 0 j0]"
    and r: "rest \<noteq> []"
    and es: "es \<in> shuffles rest [FetchSettles 1 r1, JsonSettles 1 j1]"
  shows "lw_net (runLoads URLDataSource_load (fresh ds) (CallLoad # pre @ [CallLoad]))
           = [getProp (ds_config ds) ''url'', getProp (ds_config ds) ''url''] \<and>
         lw_net (runLoads URLDataSource_load (fresh ds) (CallLoad # pre @ CallLoad # es))
           = [getProp (ds_config ds) ''url'', getProp (ds_config ds) ''url''] \<and>
         lw_calls (runLoads URLDataSource_load (fresh ds) (CallLoad # pre @ CallLoad # es))
           = [lw_calls (runLoads URLDataSource_load (fresh ds)
                 [CallLoad, FetchSettles 0 r0, JsonSettles 0 j0]) ! 0,
              lw_calls (runLoads URLDataSource_load (fresh ds)
                 [CallLoad, FetchSettles 0 r1, JsonSettles 0 j1]) ! 0] \<and>
         (r0 = FetchResponse True s0 \<and> j0 = JsonParsed v0 \<and>
          r1 = FetchResponse True s1 \<and> j1 = JsonParsed v1 \<longrightarrow>
            lw_calls (runLoads URLDataSource_load (fresh ds) (CallLoad # pre @ CallLoad # es))
              = [Settled (Inr v0), Settled (Inr v1)])"
proof -
  define c0 where "c0 = settle (fst (URL_onResponse ds r0))"
  define c1 where "c1 = settle (fst (URL_onResponse ds r1))"
  define k0 where "k0 = settle (fst (URL_onJson ds j0))"
  define k1 where "k1 = settle (fst (URL_onJson ds j1))"
  define url where "url = getProp (ds_config ds) ''url''"
  have c: "settle (fst (URL_onResponse d r0)) = c0" "settle (fst (URL_onResponse d r1)) = c1"
    "settle (fst (URL_onJson d j0)) = k0" "settle (fst (URL_onJson d j1)) = k1" for d
    using URL_onResponse_any [of d r0 ds] URL_onResponse_any [of d r1 ds]
      URL_onJson_any [of d j0 ds] URL_onJson_any [of d j1 ds]
    by (simp_all add: c0_def c1_def k0_def k1_def)
  have n: "c0 \<noteq> AtFetch" "c1 \<noteq> AtFetch"
    using URL_onResponse_any [of ds r0 ds] URL_onResponse_any [of ds r1 ds]
    by (simp_all add: c0_def c1_def)
  have one: "runLoads URLDataSource_load (fresh ds) (CallLoad # xs) =
      runLoads URLDataSource_load \<lparr>lw_ds = ds, lw_net = [url], lw_calls = [AtFetch]\<rparr> xs" for xs
    using nl u
    by (simp add: runLoads_def fresh_def URL_call_not_loaded url_def del: execLoad.simps)
  have call: "execLoad URLDataSource_load \<lparr>lw_ds = ds, lw_net = [url], lw_calls = cs\<rparr> CallLoad =
        \<lparr>lw_ds = ds, lw_net = [url, url], lw_calls = cs @ [AtFetch]\<rparr>" for cs
    using nl u URL_call_not_loaded [of ds "[url]" cs] by (simp add: url_def)
  have alone: "lw_calls (runLoads URLDataSource_load (fresh ds)
        [CallLoad, FetchSettles 0 r0, JsonSettles 0 j0]) ! 0 = (if c0 = AtJson then k0 else c0)"
    "lw_calls (runLoads URLDataSource_load (fresh ds)
        [CallLoad, FetchSettles 0 r1, JsonSettles 0 j1]) ! 0 = (if c1 = AtJson then k1 else c1)"
    unfolding one by (simp_all add: runLoads_def URL_settles c del: execLoad.simps)
  have ok: "r0 = FetchResponse True s0 \<and> j0 = JsonParsed v0 \<and>
      r1 = FetchResponse True s1 \<and> j1 = JsonParsed v1 \<longrightarrow>
      c0 = AtJson \<and> c1 = AtJson \<and> k0 = Settled (Inr v0) \<and> k1 = Settled (Inr v1)"
    by (simp add: c0_def c1_def k0_def k1_def URL_onResponse_def URL_onJson_def)
  have main: "lw_net (runLoads URLDataSource_load (fresh ds) (CallLoad # pre @ [CallLoad]))
        = [url, url] \<and>
      lw_net (runLoads URLDataSource_load (fresh ds) (CallLoad # pre @ CallLoad # es))
        = [url, url] \<and>
      lw_calls (runLoads URLDataSource_load (fresh ds) (CallLoad # pre @ CallLoad # es))
        = [if c0 = AtJson then k0 else c0, if c1 = AtJson then k1 else c1]"
    using in_flight_prefix [OF p r]
  proof
    assume "pre = [] \<and> rest = [FetchSettles 0 r0, JsonSettles 0 j0]"
    with es n show ?thesis
      unfolding one
      by (cases "c0 = AtJson"; cases "c1 = AtJson")
         (auto simp: runLoads_def URL_settles c call simp del: execLoad.simps)
  next
    assume "pre = [FetchSettles 0 r0] \<and> rest = [JsonSettles 0 j0]"
    with es n show ?thesis
      unfolding one
      by (cases "c0 = AtJson"; cases "c1 = AtJson")
         (auto simp: runLoads_def URL_settles c call simp del: execLoad.simps)
  qed
  from main alone ok show ?thesis
    unfolding url_def by simp
qed

theorem concurrent_load_fetches_per_call_witness:
  "\<not> (ds_loaded exUrlSource \<and> truthy (ds_data exUrlSource)) \<and>
   truthy (getProp (ds_config exUrlSource) ''url'') \<and>
   [FetchSettles 0 (FetchResponse True ''OK'')] @ [JsonSettles 0 (JsonParsed (JNum (Num 1)))]
     = [FetchSettles 0 (FetchResponse True ''OK''), JsonSettles 0 (JsonParsed (JNum (Num 1)))] \<and>
   [JsonSettles 0 (JsonParsed (JNum (Num 1)))] \<noteq> [] \<and>
   [FetchSettles 1 (FetchResponse True ''OK''), JsonSettles 1 (JsonParsed (JNum (Num 2))),
    JsonSettles 0 (JsonParsed (JNum (Num 1)))]
     \<in> shuffles
         [JsonSettles 0 (JsonParsed (JNum (Num 1)))]
         [FetchSettles 1 (FetchResponse True ''OK''), JsonSettles 1 (JsonParsed (JNum (Num 2)))] \<and>
   lw_net (runLoads URLDataSource_load (fresh exUrlSource)
      [CallLoad, FetchSettles 0 (FetchResponse True ''OK''), CallLoad])
     = [JStr ''https://x/data.json'', JStr ''https://x/data.json''] \<and>
   lw_net (runLoads URLDataSource_load (fresh exUrlSource)
      [CallLoad, FetchSettles 0 (FetchResponse True ''OK''), CallLoad,
       FetchSettles 1 (FetchResponse True ''OK''), JsonSettles 1 (JsonParsed (JNum (Num 2))),
       JsonSettles 0 (JsonParsed (JNum (Num 1)))])
     = [JStr ''https://x/data.json'', JStr ''https://x/data.json''] \<and>
   lw_calls (runLoads URLDataSource_load (fresh exUrlSource)
      [CallLoad, FetchSettles 0 (FetchResponse True ''OK''), CallLoad,
       FetchSettles 1 (FetchResponse True ''OK''), JsonSettles 1 (JsonParsed (JNum (Num 2))),
       JsonSettles 0 (JsonParsed (JNum (Num 1)))])
     = [Settled (Inr (JNum (Num 1))), Settled (Inr (JNum (Num 2)))]"
proof -
  have h1: "\<not> (ds_loaded exUrlSource \<and> truthy (ds_data exUrlSource))"
    by (simp add: exUrlSource_def newBaseDataSource_def)
  have h2: "truthy (getProp (ds_config exUrlSource) ''url'')"
    by (simp add: exUrlSource_def newBaseDataSource_def exUrlConfig_def getProp_def)
  have h3: "[FetchSettles 0 (FetchResponse True ''OK'')] @
      [JsonSettles 0 (JsonParsed (JNum (Num 1)))]
     = [FetchSettles 0 (FetchResponse True ''OK''), JsonSettles 0 (JsonParsed (JNum (Num 1)))]"
    and h4: "[JsonSettles 0 (JsonParsed (JNum (Num 1)))] \<noteq> []"
    by simp_all
  have h5: "[FetchSettles 1 (FetchResponse True ''OK''), JsonSettles 1 (JsonParsed (JNum (Num 2))),
    JsonSettles 0 (JsonParsed (JNum (Num 1)))]
     \<in> shuffles
         [JsonSettles 0 (JsonParsed (JNum (Num 1)))]
         [FetchSettles 1 (FetchResponse True ''OK''), JsonSettles 1 (JsonParsed (JNum (Num 2)))]"
    by simp
  have h6: "getProp (ds_config exUrlSource) ''url'' = JStr ''https://x/data.json''"
    by (simp add: exUrlSource_def newBaseDataSource_def exUrlConfig_def getProp_def)
  note t = concurrent_load_fetches_per_call [OF h1 h2 h3 h4 h5, of "''OK''" "JNum (Num 1)"
      "''OK''" "JNum (Num 2)"]
  from t [THEN conjunct1] t [THEN conjunct2, THEN conjunct1]
    t [THEN conjunct2, THEN conjunct2, THEN conjunct2] h1 h2 h4 h5 h6
  show ?thesis by simp
qed

text \<open>
  C7, as stated, fails: the memo is used only when \<open>this.loaded && this.data\<close>
  holds, and a payload can be falsy. After a load whose body parses to \<open>0\<close> the
  instance is loaded, and the next \<open>load\<close> sends a second request.
\<close>

theorem loaded_refetch_counterexample:
  "isLoaded (lw_ds (runLoads URLDataSource_load (fresh exUrlSource)
      [CallLoad, FetchSettles 0 (FetchResponse True ''OK''),
       JsonSettles 0 (JsonParsed (JNum (Num 0)))])) \<and>
   lw_net (runLoads URLDataSource_load (fresh exUrlSource)
      [CallLoad, FetchSettles 0 (FetchResponse True ''OK''),
       JsonSettles 0 (JsonParsed (JNum (Num 0))), CallLoad])
     = [JStr ''https://x/data.json'', JStr ''https://x/data.json'']"
  by (simp add: runLoads_def fresh_def URLDataSource_load_def URL_onCall_def URL_onResponse_def
      URL_onJson_def exUrlSource_def newBaseDataSource_def exUrlConfig_def getProp_def
      isLoaded_def)

text \<open>
  C7, amended. For a URL instance \<open>d\<close> with a url and a GeoJSON instance \<open>g\<close> whose
  data is a URL string: when the instance is loaded and its payload is truthy, \<open>load\<close>
  returns the payload, sends no request and changes nothing. When the instance is
  loaded and its payload is falsy, \<open>load\<close> sends a request again; \<open>0\<close>, \<open>false\<close>,
  \<open>null\<close> and the empty string are falsy, and a load whose body parses to a value
  leaves the instance loaded with that value. When the instance is
  not loaded and the fetch is rejected, or answers with a status that is not ok, the
  call throws the rejection's cause, or an error carrying the status text, and the
  instance is as it was: \<open>isLoaded\<close> is still false.
\<close>

theorem load_memo_and_failure:
  assumes "truthy (getProp (ds_config d) ''url'')"
    and "getProp (ds_config g) ''data'' = JStr s"
  shows "(ds_loaded d \<and> truthy (ds_data d) \<longrightarrow>
            execLoad URLDataSource_load \<lparr>lw_ds = d, lw_net = net, lw_calls = cs\<rparr> CallLoad
              = \<lparr>lw_ds = d, lw_net = net, lw_calls = cs @ [Settled (Inr (ds_data d))]\<rparr>) \<and>
         (ds_loaded g \<and> truthy (ds_data g) \<longrightarrow>
            execLoad GeoJSONDataSource_load \<lparr>lw_ds = g, lw_net = net, lw_calls = cs\<rparr> CallLoad
              = \<lparr>lw_ds = g, lw_net = net, lw_calls = cs @ [Settled (Inr (ds_data g))]\<rparr>) \<and>
         (ds_loaded d \<and> \<not> truthy (ds_data d) \<longrightarrow>
            execLoad URLDataSource_load \<lparr>lw_ds = d, lw_net = net, lw_calls = cs\<rparr> CallLoad
              = \<lparr>lw_ds = d, lw_net = net @ [getProp (ds_config d) ''url''],
                 lw_calls = cs @ [AtFetch]\<rparr>) \<and>
         (ds_loaded g \<and> \<not> truthy (ds_data g) \<longrightarrow>
            execLoad GeoJSONDataSource_load \<lparr>lw_ds = g, lw_net = net, lw_calls = cs\<rparr> CallLoad
              = \<lparr>lw_ds = g, lw_net = net @ [JStr s], lw_calls = cs @ [AtFetch]\<rparr>) \<and>
         (\<not> truthy (JNum (Num 0)) \<and> \<not> truthy (JBool False) \<and> \<not> truthy JNull \<and>
          \<not> truthy (JStr [])) \<and>
         (\<not> ds_loaded d \<longrightarrow>
            lw_ds (runLoads URLDataSource_load (fresh d)
                [CallLoad, FetchSettles 0 (FetchResponse True st), JsonSettles 0 (JsonParsed v)])
              = d\<lparr>ds_data := v, ds_loaded := True\<rparr>) \<and>
         (\<not> ds_loaded g \<longrightarrow>
            lw_ds (runLoads GeoJSONDataSource_load (fresh g)
                [CallLoad, FetchSettles 0 (FetchResponse True st), JsonSettles 0 (JsonParsed v)])
              = g\<lparr>ds_data := v, ds_loaded := True\<rparr>) \<and>
         (\<not> ds_loaded d \<longrightarrow>
            runLoads URLDataSource_load (fresh d)
                [CallLoad, FetchSettles 0 (FetchRejected cause)]
              = \<lparr>lw_ds = d, lw_net = [getProp (ds_config d) ''url''],
                 lw_calls = [Settled (Inl (Rejected cause))]\<rparr> \<and>
            runLoads URLDataSource_load (fresh d)
                [CallLoad, FetchSettles 0 (FetchResponse False st)]
              = \<lparr>lw_ds = d, lw_net = [getProp (ds_config d) ''url''],
                 lw_calls = [Settled (Inl (LoadDataFailed st))]\<rparr> \<and>
            \<not> isLoaded d) \<and>
         (\<not> ds_loaded g \<longrightarrow>
            runLoads GeoJSONDataSource_load (fresh g)
                [CallLoad, FetchSettles 0 (FetchRejected cause)]
              = \<lparr>lw_ds = g, lw_net = [JStr s], lw_calls = [Settled (Inl (Rejected cause))]\<rparr> \<and>
            runLoads GeoJSONDataSource_load (fresh g)
                [CallLoad, FetchSettles 0 (FetchResponse False st)]
              = \<lparr>lw_ds = g, lw_net = [JStr s],
                 lw_calls = [Settled (Inl (LoadGeoJSONFailed st))]\<rparr> \<and>
            \<not> isLoaded g)"
  using assms
  by (simp add: runLoads_def fresh_def URLDataSource_load_def URL_onCall_def URL_onResponse_def
      URL_onJson_def GeoJSONDataSource_load_def GeoJSON_onCall_def GeoJSON_onResponse_def
      GeoJSON_onJson_def isLoaded_def)

theorem load_memo_and_failure_witness:
  "truthy (getProp (ds_config exUrlLoaded) ''url'') \<and>
   truthy (getProp (ds_config exUrlSource) ''url'') \<and>
   truthy (getProp (ds_config exUrlLoadedZero) ''url'') \<and>
   getProp (ds_config exGeoSource) ''data'' = JStr ''https://x/a.geojson'' \<and>
   getProp (ds_config exGeoLoadedNull) ''data'' = JStr ''https://x/a.geojson'' \<and>
   ds_loaded exUrlLoaded \<and> truthy (ds_data exUrlLoaded) \<and>
   execLoad URLDataSource_load \<lparr>lw_ds = exUrlLoaded, lw_net = [], lw_calls = []\<rparr> CallLoad
     = \<lparr>lw_ds = exUrlLoaded, lw_net = [],
        lw_calls = [Settled (Inr (JObj exFeatureCollection))]\<rparr> \<and>
   ds_loaded exUrlLoadedZero \<and> \<not> truthy (ds_data exUrlLoadedZero) \<and>
   execLoad URLDataSource_load \<lparr>lw_ds = exUrlLoadedZero, lw_net = [], lw_calls = []\<rparr> CallLoad
     = \<lparr>lw_ds = exUrlLoadedZero, lw_net = [JStr ''https://x/data.json''],
        lw_calls = [AtFetch]\<rparr> \<and>
   ds_loaded exGeoLoadedNull \<and> \<not> truthy (ds_data exGeoLoadedNull) \<and>
   execLoad GeoJSONDataSource_load \<lparr>lw_ds = exGeoLoadedNull, lw_net = [], lw_calls = []\<rparr> CallLoad
     = \<lparr>lw_ds = exGeoLoadedNull, lw_net = [JStr ''https://x/a.geojson''],
        lw_calls = [AtFetch]\<rparr> \<and>
   \<not> ds_loaded exUrlSource \<and>
   lw_ds (runLoads URLDataSource_load (fresh exUrlSource)
       [CallLoad, FetchSettles 0 (FetchResponse True ''OK''),
        JsonSettles 0 (JsonParsed (JNum (Num 0)))]) = exUrlLoadedZero \<and>
   runLoads URLDataSource_load (fresh exUrlSource)
       [CallLoad, FetchSettles 0 (FetchResponse False ''Not Found'')]
     = \<lparr>lw_ds = exUrlSource, lw_net = [JStr ''https://x/data.json''],
        lw_calls = [Settled (Inl (LoadDataFailed ''Not Found''))]\<rparr> \<and>
   \<not> isLoaded exUrlSource \<and>
   \<not> ds_loaded exGeoSource \<and>
   lw_ds (runLoads GeoJSONDataSource_load (fresh exGeoSource)
       [CallLoad, FetchSettles 0 (FetchResponse True ''OK''),
        JsonSettles 0 (JsonParsed JNull)]) = exGeoLoadedNull \<and>
   runLoads GeoJSONDataSource_load (fresh exGeoSource)
       [CallLoad, FetchSettles 0 (FetchRejected (JStr ''offline''))]
     = \<lparr>lw_ds = exGeoSource, lw_net = [JStr ''https://x/a.geojson''],
        lw_calls = [Settled (Inl (Rejected (JStr ''offline'')))]\<rparr> \<and>
   \<not> isLoaded exGeoSource"
proof -
  have h1: "truthy (getProp (ds_config exUrlLoaded) ''url'')"
    and h2: "truthy (getProp (ds_config exUrlSource) ''url'')"
    and h2': "truthy (getProp (ds_config exUrlLoadedZero) ''url'')"
    and u: "getProp (ds_config exUrlSource) ''url'' = JStr ''https://x/data.json''"
      "getProp (ds_config exUrlLoadedZero) ''url'' = JStr ''https://x/data.json''"
    by (simp_all add: exUrlLoaded_def exUrlLoadedZero_def exUrlSource_def newBaseDataSource_def
        exUrlConfig_def getProp_def)
  have h3: "getProp (ds_config exGeoSource) ''data'' = JStr ''https://x/a.geojson''"
    and h3': "getProp (ds_config exGeoLoadedNull) ''data'' = JStr ''https://x/a.geojson''"
    by (simp_all add: exGeoSource_def exGeoLoadedNull_def newBaseDataSource_def exGeoConfig_def
        getProp_def)
  have l: "ds_loaded exUrlLoaded" "truthy (ds_data exUrlLoaded)"
    "ds_data exUrlLoaded = JObj exFeatureCollection"
    by (simp_all add: exUrlLoaded_def)
  have z: "ds_loaded exUrlLoadedZero" "\<not> truthy (ds_data exUrlLoadedZero)"
    "ds_loaded exGeoLoadedNull" "\<not> truthy (ds_data exGeoLoadedNull)"
    by (simp_all add: exUrlLoadedZero_def exGeoLoadedNull_def)
  have n: "\<not> ds_loaded exUrlSource" "\<not> ds_loaded exGeoSource"
    by (simp_all add: exUrlSource_def exGeoSource_def newBaseDataSource_def)
  have e: "exUrlSource\<lparr>ds_data := JNum (Num 0), ds_loaded := True\<rparr> = exUrlLoadedZero"
    "exGeoSource\<lparr>ds_data := JNull, ds_loaded := True\<rparr> = exGeoLoadedNull"
    by (simp_all add: exUrlLoadedZero_def exGeoLoadedNull_def)
  from load_memo_and_failure [OF h1 h3, of "[]" "[]" "''OK''" JNull "JStr ''offline''"]
       load_memo_and_failure [OF h2 h3, of "[]" "[]" "''OK''" "JNum (Num 0)" "JStr ''offline''"]
       load_memo_and_failure [OF h2 h3, of "[]" "[]" "''OK''" JNull "JStr ''offline''"]
       load_memo_and_failure [OF h2 h3, of "[]" "[]" "''Not Found''" JNull "JStr ''offline''"]
       load_memo_and_failure [OF h2' h3', of "[]" "[]" "''OK''" JNull "JStr ''offline''"]
       h1 h2 h2' h3 h3' l z n u e
  show ?thesis by simp
qed

section \<open>The facade before initialisation\<close>

lemma exMap_built: "newUniversalMap exMapConfig = (Inr exMap, [])"
  by (simp add: newUniversalMap_def UniversalMap_validateConfig_def exMapConfig_def exMap_def
      getProp_def)

lemma guarded_not_initialized:
  "\<not> um_initialized m \<Longrightarrow> guarded m f = (Inl notInitialized, m)"
  by (simp add: guarded_def ensureInitialized_def split: option.splits)

text \<open>
  C8, as stated, fails for \<open>resize\<close>: on a facade fresh from the constructor
  (which \<open>initialize\<close> cannot initialise, as \<open>createProvider\<close> throws) \<open>resize\<close>
  returns normally.
\<close>

theorem resize_counterexample:
  "\<not> um_initialized exMap \<and>
   initialize exProvider exMap =
     (Inl (MapError ''Failed to initialize map'' ''INIT_ERROR''
            (Some (MapError ''Provider not yet implemented'' ''PROVIDER_NOT_FOUND'' None))),
      exMap, []) \<and>
   UniversalMap_resize exProvider exMap = (Inr (), exMap)"
  by (simp add: exMap_def UniversalMap_resize_def initialize_def createProvider_def)

text \<open>
  C8, amended. On a facade that is not initialised, each of \<open>getViewState\<close>,
  \<open>setViewState\<close>, \<open>getBounds\<close>, \<open>fitBounds\<close>, \<open>addLayer\<close>, \<open>removeLayer\<close>,
  \<open>updateLayer\<close>, \<open>getLayer\<close>, \<open>getLayers\<close>, \<open>setLayerVisibility\<close> and
  \<open>setLayerOpacity\<close> throws the \<open>NOT_INITIALIZED\<close> error and leaves the facade as
  it was; \<open>resize\<close>, when there is no provider, returns normally and does nothing.
  On an initialised facade \<open>initialize\<close> returns normally, writes one warning and
  leaves the facade as it was.
\<close>

theorem facade_before_initialize:
  assumes "\<not> um_initialized m" and "um_initialized m'"
  shows "UniversalMap_getViewState P m = (Inl notInitialized, m) \<and>
         UniversalMap_setViewState P m viewState options = (Inl notInitialized, m) \<and>
         UniversalMap_getBounds P m = (Inl notInitialized, m) \<and>
         UniversalMap_fitBounds P m bounds options = (Inl notInitialized, m) \<and>
         UniversalMap_addLayer P m c = (Inl notInitialized, m) \<and>
         UniversalMap_removeLayer P m layerId = (Inl notInitialized, m) \<and>
         UniversalMap_updateLayer P m layerId updates = (Inl notInitialized, m) \<and>
         UniversalMap_getLayer P m layerId = (Inl notInitialized, m) \<and>
         UniversalMap_getLayers P m = (Inl notInitialized, m) \<and>
         UniversalMap_setLayerVisibility P m layerId visible = (Inl notInitialized, m) \<and>
         UniversalMap_setLayerOpacity P m layerId opacity = (Inl notInitialized, m) \<and>
         (um_provider m = None \<longrightarrow> UniversalMap_resize P m = (Inr (), m)) \<and>
         initialize P m' = (Inr (), m', [''Map is already initialized''])"
  using assms
  by (simp add: guarded_not_initialized UniversalMap_getViewState_def
      UniversalMap_setViewState_def UniversalMap_getBounds_def UniversalMap_fitBounds_def
      UniversalMap_addLayer_def UniversalMap_removeLayer_def UniversalMap_updateLayer_def
      UniversalMap_getLayer_def UniversalMap_getLayers_def UniversalMap_setLayerVisibility_def
      UniversalMap_setLayerOpacity_def UniversalMap_resize_def initialize_def)

theorem facade_before_initialize_witness:
  "\<not> um_initialized exMap \<and> um_initialized exMapInitialized \<and> um_provider exMap = None \<and>
   UniversalMap_getViewState exProvider exMap = (Inl notInitialized, exMap) \<and>
   UniversalMap_addLayer exProvider exMap exConfigA = (Inl notInitialized, exMap) \<and>
   UniversalMap_setLayerOpacity exProvider exMap ''a'' (Num (1/2)) = (Inl notInitialized, exMap) \<and>
   UniversalMap_resize exProvider exMap = (Inr (), exMap) \<and>
   initialize exProvider exMapInitialized
     = (Inr (), exMapInitialized, [''Map is already initialized''])"
proof -
  have h1: "\<not> um_initialized exMap" and h3: "um_provider exMap = None"
    by (simp_all add: exMap_def)
  have h2: "um_initialized exMapInitialized"
    by (simp add: exMapInitialized_def)
  from facade_before_initialize
         [OF h1 h2, of exProvider JNull JNull JNull exConfigA "''a''" emptyPatch True "Num (1/2)"]
       h1 h2 h3
  show ?thesis by simp
qed

section \<open>Registering a data source twice\<close>

lemma createDataSource_fresh:
  "createDataSource c = Inr ds \<Longrightarrow>
   recognizedTag (getProp c ''type'') \<and> \<not> ds_loaded ds \<and> ds_data ds = JNull \<and> ds_config ds = c"
  by (auto simp: createDataSource_def Let_def recognizedTag_def newGeoJSONDataSource_def
      newURLDataSource_def newTileDataSource_def newThreeDTilesDataSource_def
      newMockDataSource_def newBaseDataSource_def split: if_splits)

lemma createDataSource_fails:
  "createDataSource c = Inl e \<Longrightarrow>
   \<not> recognizedTag (getProp c ''type'') \<and> e = UnsupportedDataSourceType (getProp c ''type'')"
  by (auto simp: createDataSource_def Let_def recognizedTag_def newGeoJSONDataSource_def
      newURLDataSource_def newTileDataSource_def newThreeDTilesDataSource_def
      newMockDataSource_def newBaseDataSource_def split: if_splits)

lemma exManager_registered:
  "registerSource \<lparr>dm_store = [], dm_sources = []\<rparr> ''x'' exUrlConfig
     = (Inr 0, \<lparr>dm_store = [exUrlSource], dm_sources = [(''x'', 0)]\<rparr>)"
  by (simp add: registerSource_def exUrlSource_built)

lemma destroy_idem: "destroy (destroy x) = destroy x"
  by (simp add: destroy_def)

lemma fold_destroy_nth:
  "a < length st \<Longrightarrow>
   fold (\<lambda>(k, a) st. st[a := destroy (st ! a)]) xs st ! a =
     (if a \<in> snd ` set xs then destroy (st ! a) else st ! a)"
proof (induction xs arbitrary: st)
  case Nil
  then show ?case by simp
next
  case (Cons x xs)
  obtain k b where x: "x = (k, b)" by (cases x)
  let ?st = "st[b := destroy (st ! b)]"
  from Cons.prems have len: "a < length ?st" by simp
  from Cons.IH [OF len] Cons.prems x show ?case
    by (cases "b = a") (auto simp: destroy_idem)
qed

lemma clearSources_destroys:
  assumes "getSourceRef m i = Some a" and "a < length (dm_store m)"
  shows "dm_store (clearSources m) ! a = destroy (dm_store m ! a)"
    and "getSourceRef (clearSources m) i = None"
proof -
  from assms(1) have "(i, a) \<in> set (dm_sources m)"
    by (simp add: getSourceRef_def map_of_SomeD)
  then have "a \<in> snd ` set (dm_sources m)" by force
  with assms(2) show "dm_store (clearSources m) ! a = destroy (dm_store m ! a)"
    by (simp add: clearSources_def fold_destroy_nth)
  show "getSourceRef (clearSources m) i = None"
    by (simp add: clearSources_def getSourceRef_def)
qed

text \<open>
  C10, as stated, fails: \<open>registerSource\<close> builds the instance before it touches the
  map, and \<open>createDataSource\<close> has no case for the tag \<open>custom\<close> of
  \<open>DataSourceType\<close>. Under an id already registered, as under any other, the call
  throws.
\<close>

theorem registerSource_counterexample:
  "getSourceRef exManager ''x'' = Some 0 \<and>
   registerSource exManager ''x'' [(''type'', JStr ''custom'')]
     = (Inl (UnsupportedDataSourceType (JStr ''custom'')), exManager)"
  by (simp add: getSourceRef_def exManager_def registerSource_def createDataSource_def
      getProp_def)

text \<open>
  C10, amended. Let \<open>i\<close> be registered, for the instance at \<open>a\<close>. When the
  descriptor's tag is none of the five that \<open>createDataSource\<close> knows,
  \<open>registerSource\<close> throws "Unsupported data source type" and the manager is as it
  was. Otherwise it does not fail: it returns a newly built instance, not loaded,
  which \<open>i\<close> now refers to, and the instance at \<open>a\<close> is exactly as it was, so its
  \<open>destroy\<close> has not run. \<open>removeSource\<close> and \<open>clear\<close>, by contrast, destroy the
  instance at \<open>a\<close> and then drop the entry.
\<close>

theorem registerSource_replaces_silently:
  assumes "getSourceRef m i = Some a" and "a < length (dm_store m)"
  shows "(\<not> recognizedTag (getProp c ''type'') \<longrightarrow>
            registerSource m i c = (Inl (UnsupportedDataSourceType (getProp c ''type'')), m)) \<and>
         (recognizedTag (getProp c ''type'') \<longrightarrow>
            (\<exists>ds. createDataSource c = Inr ds \<and> \<not> ds_loaded ds \<and>
               fst (registerSource m i c) = Inr (length (dm_store m)) \<and>
               getSourceRef (snd (registerSource m i c)) i = Some (length (dm_store m)) \<and>
               dm_store (snd (registerSource m i c)) ! length (dm_store m) = ds \<and>
               dm_store (snd (registerSource m i c)) ! a = dm_store m ! a)) \<and>
         dm_store (removeSource m i) ! a = destroy (dm_store m ! a) \<and>
         getSourceRef (removeSource m i) i = None \<and>
         dm_store (clearSources m) ! a = destroy (dm_store m ! a) \<and>
         getSourceRef (clearSources m) i = None"
proof -
  have 1: "\<not> recognizedTag (getProp c ''type'') \<Longrightarrow>
            registerSource m i c = (Inl (UnsupportedDataSourceType (getProp c ''type'')), m)"
    by (cases "createDataSource c")
       (auto simp: registerSource_def dest: createDataSource_fails createDataSource_fresh)
  have 2: "recognizedTag (getProp c ''type'') \<Longrightarrow>
            (\<exists>ds. createDataSource c = Inr ds \<and> \<not> ds_loaded ds \<and>
               fst (registerSource m i c) = Inr (length (dm_store m)) \<and>
               getSourceRef (snd (registerSource m i c)) i = Some (length (dm_store m)) \<and>
               dm_store (snd (registerSource m i c)) ! length (dm_store m) = ds \<and>
               dm_store (snd (registerSource m i c)) ! a = dm_store m ! a)"
    using assms(2)
    by (cases "createDataSource c")
       (auto simp: registerSource_def getSourceRef_def update_conv' nth_append
          dest: createDataSource_fails createDataSource_fresh)
  have 3: "dm_store (removeSource m i) ! a = destroy (dm_store m ! a)"
    "getSourceRef (removeSource m i) i = None"
    using assms by (simp_all add: removeSource_def getSourceRef_def delete_conv')
  from 1 2 3 clearSources_destroys [OF assms] show ?thesis by blast
qed

theorem registerSource_replaces_silently_witness:
  "getSourceRef exManager ''x'' = Some 0 \<and> 0 < length (dm_store exManager) \<and>
   recognizedTag (getProp exUrlConfig ''type'') \<and>
   \<not> recognizedTag (getProp [(''type'', JStr ''custom'')] ''type'') \<and>
   registerSource exManager ''x'' [(''type'', JStr ''custom'')]
     = (Inl (UnsupportedDataSourceType (JStr ''custom'')), exManager) \<and>
   registerSource exManager ''x'' exUrlConfig
     = (Inr 1, \<lparr>dm_store = [exUrlLoaded, exUrlSource], dm_sources = [(''x'', 1)]\<rparr>) \<and>
   dm_store (snd (registerSource exManager ''x'' exUrlConfig)) ! 0 = exUrlLoaded \<and>
   isLoaded exUrlLoaded \<and>
   dm_store (removeSource exManager ''x'') ! 0 = destroy exUrlLoaded \<and>
   \<not> isLoaded (destroy exUrlLoaded) \<and>
   getSourceRef (removeSource exManager ''x'') ''x'' = None \<and>
   dm_store (clearSources exManager) ! 0 = destroy exUrlLoaded"
proof -
  have h1: "getSourceRef exManager ''x'' = Some 0"
    and h2: "0 < length (dm_store exManager)"
    and s0: "dm_store exManager ! 0 = exUrlLoaded"
    by (simp_all add: getSourceRef_def exManager_def)
  have t: "recognizedTag (getProp exUrlConfig ''type'')"
    "\<not> recognizedTag (getProp [(''type'', JStr ''custom'')] ''type'')"
    "getProp [(''type'', JStr ''custom'')] ''type'' = JStr ''custom''"
    by (simp_all add: recognizedTag_def getProp_def exUrlConfig_def)
  have r: "registerSource exManager ''x'' exUrlConfig
     = (Inr 1, \<lparr>dm_store = [exUrlLoaded, exUrlSource], dm_sources = [(''x'', 1)]\<rparr>)"
    by (simp add: registerSource_def exUrlSource_built exManager_def)
  have l: "isLoaded exUrlLoaded" "\<not> isLoaded (destroy exUrlLoaded)"
    by (simp_all add: isLoaded_def destroy_def exUrlLoaded_def)
  from registerSource_replaces_silently [OF h1 h2, of exUrlConfig]
       registerSource_replaces_silently [OF h1 h2, of "[(''type'', JStr ''custom'')]"]
       h1 h2 s0 t r l
  show ?thesis by simp
qed

end
